theory Spec2Isabelle
  imports Main
begin

section \<open>Data model\<close>

text \<open>
  The reconciler of \<^verbatim>\<open>pkg/controller/sync/sync.go\<close> drives a ManagedCertificate
  (the desired resource) and an SslCertificate (the external resource) through one pass.
  Go's \<^verbatim>\<open>error\<close> is an interface value that may be nil: a result \<^verbatim>\<open>error\<close> is an
  \<open>error option\<close> (\<open>None\<close> is nil), a result \<^verbatim>\<open>(T, error)\<close> is \<open>error + T\<close>.
\<close>

text \<open>
  Modelled from the spec: the error values. Package \<^verbatim>\<open>errors\<close> (the two sentinels) and
  the HTTP error classification of package \<^verbatim>\<open>utils/http\<close> are not part of the source
  file; the spec's taxonomy has NotTracked, NotFound (remote), DriftRemediated and
  BackendError.
\<close>

datatype error =
    ErrManagedCertificateNotFound
  | ErrSslCertificateOutOfSyncGotDeleted
  | NotFound
  | BackendError string

text \<open>
  Modelled from the spec: \<^verbatim>\<open>http.IsNotFound\<close> and \<^verbatim>\<open>http.IgnoreNotFound\<close> (package
  \<^verbatim>\<open>utils/http\<close>, not part of the source file): "resource not found" is recognised, and
  on delete it is treated as a successful outcome.
\<close>

fun IsNotFound :: "error option \<Rightarrow> bool" where
  "IsNotFound (Some NotFound) = True"
| "IsNotFound _ = False"

definition IgnoreNotFound :: "error option \<Rightarrow> error option" where
  "IgnoreNotFound err = (if IsNotFound err then None else err)"

text \<open>\<^verbatim>\<open>types.CertId\<close>: the identity, a (namespace, name) key.\<close>

record CertId =
  Namespace :: string
  Name :: string

text \<open>
  Modelled from the spec: the desired resource holds the domain names, a creation
  timestamp and the status the reconciler writes; the external resource has a name, a
  domain list and a provisioning status (packages \<^verbatim>\<open>apis\<close> and \<^verbatim>\<open>compute\<close> are not
  part of the source file).
\<close>

record ManagedCertificate =
  mcrt_Namespace :: string
  mcrt_Name :: string
  mcrt_Domains :: "string list"
  mcrt_CreationTimestamp :: int
  mcrt_Status :: string

record SslCertificate =
  ssl_Name :: string
  ssl_Domains :: "string list"
  ssl_Status :: string

section \<open>The collaborators of \<^verbatim>\<open>syncImpl\<close>\<close>

text \<open>
  \<^verbatim>\<open>syncImpl\<close> holds seven collaborators behind interfaces (client, config, lister,
  metrics, random, ssl, state); none of their implementations is part of the source
  file, so each method the reconciler calls is a parameter. A method acts on the world
  \<open>'w\<close> (everything outside the reconciler) and returns the world it leaves. The calls
  \<^verbatim>\<open>s.state.SetSslCertificateName\<close>, \<^verbatim>\<open>s.state.Delete\<close> and
  \<^verbatim>\<open>s.metrics.ObserveSslCertificateCreationLatency\<close> are statements whose result, if
  any, the source discards, so they only return the world. \<^verbatim>\<open>certificates.Equal\<close> and
  \<^verbatim>\<open>certificates.CopyStatus\<close> (with \<^verbatim>\<open>s.config\<close>) are pure; \<open>time_Parse\<close> stands for
  \<^verbatim>\<open>time.Parse(time.RFC3339, mcrt.CreationTimestamp.Format(time.RFC3339))\<close>.
\<close>

record 'w syncImpl =
  lister_Get :: "CertId \<Rightarrow> 'w \<Rightarrow> (error + ManagedCertificate) \<times> 'w"
  client_Update :: "ManagedCertificate \<Rightarrow> 'w \<Rightarrow> error option \<times> 'w"
  metrics_Observe :: "int \<Rightarrow> 'w \<Rightarrow> 'w"
  random_Name :: "'w \<Rightarrow> (error + string) \<times> 'w"
  ssl_Exists :: "string \<Rightarrow> ManagedCertificate \<Rightarrow> 'w \<Rightarrow> (error + bool) \<times> 'w"
  ssl_Create :: "string \<Rightarrow> ManagedCertificate \<Rightarrow> 'w \<Rightarrow> error option \<times> 'w"
  ssl_Get :: "string \<Rightarrow> ManagedCertificate \<Rightarrow> 'w \<Rightarrow> (error + SslCertificate) \<times> 'w"
  ssl_Delete :: "string \<Rightarrow> ManagedCertificate option \<Rightarrow> 'w \<Rightarrow> error option \<times> 'w"
  state_Delete :: "CertId \<Rightarrow> 'w \<Rightarrow> 'w"
  state_GetSslCertificateName :: "CertId \<Rightarrow> 'w \<Rightarrow> (error + string) \<times> 'w"
  state_IsExcludedFromSLO :: "CertId \<Rightarrow> 'w \<Rightarrow> (error + bool) \<times> 'w"
  state_IsSoftDeleted :: "CertId \<Rightarrow> 'w \<Rightarrow> (error + bool) \<times> 'w"
  state_IsSslCertificateCreationReported :: "CertId \<Rightarrow> 'w \<Rightarrow> (error + bool) \<times> 'w"
  state_SetSoftDeleted :: "CertId \<Rightarrow> 'w \<Rightarrow> error option \<times> 'w"
  state_SetSslCertificateCreationReported :: "CertId \<Rightarrow> 'w \<Rightarrow> error option \<times> 'w"
  state_SetSslCertificateName :: "CertId \<Rightarrow> string \<Rightarrow> 'w \<Rightarrow> 'w"
  certificates_Equal :: "ManagedCertificate \<Rightarrow> SslCertificate \<Rightarrow> bool"
  certificates_CopyStatus :: "SslCertificate \<Rightarrow> ManagedCertificate \<Rightarrow> error + ManagedCertificate"
  time_Parse :: "ManagedCertificate \<Rightarrow> error + int"

text \<open>
  Every call to a collaborator is logged with its arguments and its result, in the order
  the calls are made: the log is what the temporal claims are about.
\<close>

datatype event =
    ListerGet CertId "error + ManagedCertificate"
  | ClientUpdate ManagedCertificate "error option"
  | MetricsObserve int
  | RandomName "error + string"
  | SslExists string ManagedCertificate "error + bool"
  | SslCreate string ManagedCertificate "error option"
  | SslGet string ManagedCertificate "error + SslCertificate"
  | SslDelete string "ManagedCertificate option" "error option"
  | StateDelete CertId
  | StateGetSslCertificateName CertId "error + string"
  | StateIsExcludedFromSLO CertId "error + bool"
  | StateIsSoftDeleted CertId "error + bool"
  | StateIsSslCertificateCreationReported CertId "error + bool"
  | StateSetSoftDeleted CertId "error option"
  | StateSetSslCertificateCreationReported CertId "error option"
  | StateSetSslCertificateName CertId string

type_synonym 'w st = "'w \<times> event list"

definition call_lister_Get ::
  "'w syncImpl \<Rightarrow> CertId \<Rightarrow> 'w st \<Rightarrow> (error + ManagedCertificate) \<times> 'w st" where
  "call_lister_Get s id' \<sigma> =
     (case lister_Get s id' (fst \<sigma>) of (r, w') \<Rightarrow> (r, (w', snd \<sigma> @ [ListerGet id' r])))"

definition call_client_Update ::
  "'w syncImpl \<Rightarrow> ManagedCertificate \<Rightarrow> 'w st \<Rightarrow> error option \<times> 'w st" where
  "call_client_Update s mcrt \<sigma> =
     (case client_Update s mcrt (fst \<sigma>) of (r, w') \<Rightarrow> (r, (w', snd \<sigma> @ [ClientUpdate mcrt r])))"

definition call_metrics_Observe :: "'w syncImpl \<Rightarrow> int \<Rightarrow> 'w st \<Rightarrow> 'w st" where
  "call_metrics_Observe s t \<sigma> = (metrics_Observe s t (fst \<sigma>), snd \<sigma> @ [MetricsObserve t])"

definition call_random_Name :: "'w syncImpl \<Rightarrow> 'w st \<Rightarrow> (error + string) \<times> 'w st" where
  "call_random_Name s \<sigma> =
     (case random_Name s (fst \<sigma>) of (r, w') \<Rightarrow> (r, (w', snd \<sigma> @ [RandomName r])))"

definition call_ssl_Exists ::
  "'w syncImpl \<Rightarrow> string \<Rightarrow> ManagedCertificate \<Rightarrow> 'w st \<Rightarrow> (error + bool) \<times> 'w st" where
  "call_ssl_Exists s n mcrt \<sigma> =
     (case ssl_Exists s n mcrt (fst \<sigma>) of (r, w') \<Rightarrow> (r, (w', snd \<sigma> @ [SslExists n mcrt r])))"

definition call_ssl_Create ::
  "'w syncImpl \<Rightarrow> string \<Rightarrow> ManagedCertificate \<Rightarrow> 'w st \<Rightarrow> error option \<times> 'w st" where
  "call_ssl_Create s n mcrt \<sigma> =
     (case ssl_Create s n mcrt (fst \<sigma>) of (r, w') \<Rightarrow> (r, (w', snd \<sigma> @ [SslCreate n mcrt r])))"

definition call_ssl_Get ::
  "'w syncImpl \<Rightarrow> string \<Rightarrow> ManagedCertificate \<Rightarrow> 'w st \<Rightarrow> (error + SslCertificate) \<times> 'w st" where
  "call_ssl_Get s n mcrt \<sigma> =
     (case ssl_Get s n mcrt (fst \<sigma>) of (r, w') \<Rightarrow> (r, (w', snd \<sigma> @ [SslGet n mcrt r])))"

definition call_ssl_Delete ::
  "'w syncImpl \<Rightarrow> string \<Rightarrow> ManagedCertificate option \<Rightarrow> 'w st \<Rightarrow> error option \<times> 'w st" where
  "call_ssl_Delete s n mcrt \<sigma> =
     (case ssl_Delete s n mcrt (fst \<sigma>) of (r, w') \<Rightarrow> (r, (w', snd \<sigma> @ [SslDelete n mcrt r])))"

definition call_state_Delete :: "'w syncImpl \<Rightarrow> CertId \<Rightarrow> 'w st \<Rightarrow> 'w st" where
  "call_state_Delete s id' \<sigma> = (state_Delete s id' (fst \<sigma>), snd \<sigma> @ [StateDelete id'])"

definition call_state_GetSslCertificateName ::
  "'w syncImpl \<Rightarrow> CertId \<Rightarrow> 'w st \<Rightarrow> (error + string) \<times> 'w st" where
  "call_state_GetSslCertificateName s id' \<sigma> =
     (case state_GetSslCertificateName s id' (fst \<sigma>) of
        (r, w') \<Rightarrow> (r, (w', snd \<sigma> @ [StateGetSslCertificateName id' r])))"

definition call_state_IsExcludedFromSLO ::
  "'w syncImpl \<Rightarrow> CertId \<Rightarrow> 'w st \<Rightarrow> (error + bool) \<times> 'w st" where
  "call_state_IsExcludedFromSLO s id' \<sigma> =
     (case state_IsExcludedFromSLO s id' (fst \<sigma>) of
        (r, w') \<Rightarrow> (r, (w', snd \<sigma> @ [StateIsExcludedFromSLO id' r])))"

definition call_state_IsSoftDeleted ::
  "'w syncImpl \<Rightarrow> CertId \<Rightarrow> 'w st \<Rightarrow> (error + bool) \<times> 'w st" where
  "call_state_IsSoftDeleted s id' \<sigma> =
     (case state_IsSoftDeleted s id' (fst \<sigma>) of
        (r, w') \<Rightarrow> (r, (w', snd \<sigma> @ [StateIsSoftDeleted id' r])))"

definition call_state_IsSslCertificateCreationReported ::
  "'w syncImpl \<Rightarrow> CertId \<Rightarrow> 'w st \<Rightarrow> (error + bool) \<times> 'w st" where
  "call_state_IsSslCertificateCreationReported s id' \<sigma> =
     (case state_IsSslCertificateCreationReported s id' (fst \<sigma>) of
        (r, w') \<Rightarrow> (r, (w', snd \<sigma> @ [StateIsSslCertificateCreationReported id' r])))"

definition call_state_SetSoftDeleted ::
  "'w syncImpl \<Rightarrow> CertId \<Rightarrow> 'w st \<Rightarrow> error option \<times> 'w st" where
  "call_state_SetSoftDeleted s id' \<sigma> =
     (case state_SetSoftDeleted s id' (fst \<sigma>) of
        (r, w') \<Rightarrow> (r, (w', snd \<sigma> @ [StateSetSoftDeleted id' r])))"

definition call_state_SetSslCertificateCreationReported ::
  "'w syncImpl \<Rightarrow> CertId \<Rightarrow> 'w st \<Rightarrow> error option \<times> 'w st" where
  "call_state_SetSslCertificateCreationReported s id' \<sigma> =
     (case state_SetSslCertificateCreationReported s id' (fst \<sigma>) of
        (r, w') \<Rightarrow> (r, (w', snd \<sigma> @ [StateSetSslCertificateCreationReported id' r])))"

definition call_state_SetSslCertificateName ::
  "'w syncImpl \<Rightarrow> CertId \<Rightarrow> string \<Rightarrow> 'w st \<Rightarrow> 'w st" where
  "call_state_SetSslCertificateName s id' n \<sigma> =
     (state_SetSslCertificateName s id' n (fst \<sigma>), snd \<sigma> @ [StateSetSslCertificateName id' n])"

section \<open>The reconciler\<close>

text \<open>
  \<^verbatim>\<open>ensureSslCertificateName\<close>: the recorded name when the read returns no error; on any
  error of the read, a fresh name from \<^verbatim>\<open>s.random.Name()\<close>, stored and returned.
\<close>

definition ensureSslCertificateName ::
  "'w syncImpl \<Rightarrow> CertId \<Rightarrow> 'w st \<Rightarrow> (error + string) \<times> 'w st" where
  "ensureSslCertificateName s id' \<sigma> =
     (case call_state_GetSslCertificateName s id' \<sigma> of
        (Inr sslCertificateName, \<sigma>1) \<Rightarrow> (Inr sslCertificateName, \<sigma>1)
      | (Inl _, \<sigma>1) \<Rightarrow>
          (case call_random_Name s \<sigma>1 of
             (Inl err, \<sigma>2) \<Rightarrow> (Inl err, \<sigma>2)
           | (Inr sslCertificateName, \<sigma>2) \<Rightarrow>
               (Inr sslCertificateName,
                call_state_SetSslCertificateName s id' sslCertificateName \<sigma>2)))"

definition observeSslCertificateCreationLatencyIfNeeded ::
  "'w syncImpl \<Rightarrow> string \<Rightarrow> CertId \<Rightarrow> ManagedCertificate \<Rightarrow> 'w st \<Rightarrow> error option \<times> 'w st" where
  "observeSslCertificateCreationLatencyIfNeeded s sslCertificateName id' mcrt \<sigma> =
     (case call_state_IsExcludedFromSLO s id' \<sigma> of
        (Inl err, \<sigma>1) \<Rightarrow> (Some err, \<sigma>1)
      | (Inr excludedFromSLO, \<sigma>1) \<Rightarrow>
          if excludedFromSLO then (None, \<sigma>1)
          else
            (case call_state_IsSslCertificateCreationReported s id' \<sigma>1 of
               (Inl err, \<sigma>2) \<Rightarrow> (Some err, \<sigma>2)
             | (Inr reported, \<sigma>2) \<Rightarrow>
                 if reported then (None, \<sigma>2)
                 else
                   (case time_Parse s mcrt of
                      Inl err \<Rightarrow> (Some err, \<sigma>2)
                    | Inr creationTime \<Rightarrow>
                        (case call_state_SetSslCertificateCreationReported s id'
                                (call_metrics_Observe s creationTime \<sigma>2) of
                           (Some err, \<sigma>3) \<Rightarrow> (Some err, \<sigma>3)
                         | (None, \<sigma>3) \<Rightarrow> (None, \<sigma>3)))))"

definition deleteSslCertificate ::
  "'w syncImpl \<Rightarrow> ManagedCertificate option \<Rightarrow> CertId \<Rightarrow> string \<Rightarrow> 'w st \<Rightarrow> error option \<times> 'w st" where
  "deleteSslCertificate s mcrt id' sslCertificateName \<sigma> =
     (case call_state_SetSoftDeleted s id' \<sigma> of
        (Some err, \<sigma>1) \<Rightarrow> (Some err, \<sigma>1)
      | (None, \<sigma>1) \<Rightarrow>
          (case call_ssl_Delete s sslCertificateName mcrt \<sigma>1 of
             (r, \<sigma>2) \<Rightarrow>
               (case IgnoreNotFound r of
                  Some err \<Rightarrow> (Some err, \<sigma>2)
                | None \<Rightarrow> (None, call_state_Delete s id' \<sigma>2))))"

definition ensureSslCertificate ::
  "'w syncImpl \<Rightarrow> string \<Rightarrow> CertId \<Rightarrow> ManagedCertificate \<Rightarrow> 'w st \<Rightarrow> (error + SslCertificate) \<times> 'w st" where
  "ensureSslCertificate s sslCertificateName id' mcrt \<sigma> =
     (case call_ssl_Exists s sslCertificateName mcrt \<sigma> of
        (Inl err, \<sigma>1) \<Rightarrow> (Inl err, \<sigma>1)
      | (Inr exists, \<sigma>1) \<Rightarrow>
          (case (if \<not> exists then
                   (case call_ssl_Create s sslCertificateName mcrt \<sigma>1 of
                      (Some err, \<sigma>2) \<Rightarrow> (Some err, \<sigma>2)
                    | (None, \<sigma>2) \<Rightarrow>
                        observeSslCertificateCreationLatencyIfNeeded s sslCertificateName id' mcrt \<sigma>2)
                 else (None, \<sigma>1)) of
             (Some err, \<sigma>3) \<Rightarrow> (Inl err, \<sigma>3)
           | (None, \<sigma>3) \<Rightarrow>
               (case call_ssl_Get s sslCertificateName mcrt \<sigma>3 of
                  (Inl err, \<sigma>4) \<Rightarrow> (Inl err, \<sigma>4)
                | (Inr sslCert, \<sigma>4) \<Rightarrow>
                    if certificates_Equal s mcrt sslCert then (Inr sslCert, \<sigma>4)
                    else
                      (case deleteSslCertificate s (Some mcrt) id' sslCertificateName \<sigma>4 of
                         (Some err, \<sigma>5) \<Rightarrow> (Inl err, \<sigma>5)
                       | (None, \<sigma>5) \<Rightarrow> (Inl ErrSslCertificateOutOfSyncGotDeleted, \<sigma>5)))))"

definition ManagedCertificate :: "'w syncImpl \<Rightarrow> CertId \<Rightarrow> 'w st \<Rightarrow> error option \<times> 'w st" where
  "ManagedCertificate s id' \<sigma> =
     (case call_lister_Get s id' \<sigma> of
        (Inl err, \<sigma>1) \<Rightarrow>
          if IsNotFound (Some err) then
            (case call_state_GetSslCertificateName s id' \<sigma>1 of
               (Inl err, \<sigma>2) \<Rightarrow>
                 if err = ErrManagedCertificateNotFound then (None, \<sigma>2) else (Some err, \<sigma>2)
             | (Inr sslCertificateName, \<sigma>2) \<Rightarrow>
                 deleteSslCertificate s None id' sslCertificateName \<sigma>2)
          else (Some err, \<sigma>1)
      | (Inr mcrt, \<sigma>1) \<Rightarrow>
          (case ensureSslCertificateName s id' \<sigma>1 of
             (Inl err, \<sigma>2) \<Rightarrow> (Some err, \<sigma>2)
           | (Inr sslCertificateName, \<sigma>2) \<Rightarrow>
               (case call_state_IsSoftDeleted s id' \<sigma>2 of
                  (Inl err, \<sigma>3) \<Rightarrow> (Some err, \<sigma>3)
                | (Inr softDeleted, \<sigma>3) \<Rightarrow>
                    if softDeleted then
                      deleteSslCertificate s (Some mcrt) id' sslCertificateName \<sigma>3
                    else
                      (case ensureSslCertificate s sslCertificateName id' mcrt \<sigma>3 of
                         (Inl err, \<sigma>4) \<Rightarrow> (Some err, \<sigma>4)
                       | (Inr sslCert, \<sigma>4) \<Rightarrow>
                           (case certificates_CopyStatus s sslCert mcrt of
                              Inl err \<Rightarrow> (Some err, \<sigma>4)
                            | Inr mcrt' \<Rightarrow> call_client_Update s mcrt' \<sigma>4)))))"

section \<open>Re-invocation\<close>

text \<open>
  The scheduler outside the reconciler calls \<^verbatim>\<open>ManagedCertificate\<close> again for the same
  identity, whatever the previous pass returned; \<open>passes s id' k\<close> is \<open>k\<close> such passes in
  a row, on one log. \<open>ensureSslCertificateName_repeat\<close> collects the results of \<open>k\<close>
  consecutive calls of \<^verbatim>\<open>ensureSslCertificateName\<close>.
\<close>

fun passes :: "'w syncImpl \<Rightarrow> CertId \<Rightarrow> nat \<Rightarrow> 'w st \<Rightarrow> 'w st" where
  "passes s id' 0 \<sigma> = \<sigma>"
| "passes s id' (Suc k) \<sigma> = passes s id' k (snd (ManagedCertificate s id' \<sigma>))"


section \<open>The State Store of the spec\<close>

text \<open>
  Modelled from the spec: the State Store (package \<^verbatim>\<open>state\<close> is not part of the source
  file). It keeps, per tracked identity, the assigned external name and the three
  lifecycle flags; an entry is created the first time a name is set for an identity with
  no entry; reading the name of an identity with no entry fails with the NotTracked error
  (\<open>ErrManagedCertificateNotFound\<close>), and so do the reads and writes of the flags;
  removing an entry removes the name and the flags together.
\<close>

record entry =
  SslCertificateName :: string
  SoftDeleted :: bool
  ExcludedFromSLO :: bool
  SslCertificateCreationReported :: bool

type_synonym store = "CertId \<Rightarrow> entry option"

definition store_GetSslCertificateName :: "CertId \<Rightarrow> store \<Rightarrow> error + string" where
  "store_GetSslCertificateName id' m =
     (case m id' of None \<Rightarrow> Inl ErrManagedCertificateNotFound
      | Some v \<Rightarrow> Inr (SslCertificateName v))"

definition store_IsExcludedFromSLO :: "CertId \<Rightarrow> store \<Rightarrow> error + bool" where
  "store_IsExcludedFromSLO id' m =
     (case m id' of None \<Rightarrow> Inl ErrManagedCertificateNotFound
      | Some v \<Rightarrow> Inr (ExcludedFromSLO v))"

definition store_IsSoftDeleted :: "CertId \<Rightarrow> store \<Rightarrow> error + bool" where
  "store_IsSoftDeleted id' m =
     (case m id' of None \<Rightarrow> Inl ErrManagedCertificateNotFound
      | Some v \<Rightarrow> Inr (SoftDeleted v))"

definition store_IsSslCertificateCreationReported :: "CertId \<Rightarrow> store \<Rightarrow> error + bool" where
  "store_IsSslCertificateCreationReported id' m =
     (case m id' of None \<Rightarrow> Inl ErrManagedCertificateNotFound
      | Some v \<Rightarrow> Inr (SslCertificateCreationReported v))"

definition store_SetSoftDeleted :: "CertId \<Rightarrow> store \<Rightarrow> error option \<times> store" where
  "store_SetSoftDeleted id' m =
     (case m id' of None \<Rightarrow> (Some ErrManagedCertificateNotFound, m)
      | Some v \<Rightarrow> (None, m(id' \<mapsto> v\<lparr>SoftDeleted := True\<rparr>)))"

definition store_SetSslCertificateCreationReported ::
  "CertId \<Rightarrow> store \<Rightarrow> error option \<times> store" where
  "store_SetSslCertificateCreationReported id' m =
     (case m id' of None \<Rightarrow> (Some ErrManagedCertificateNotFound, m)
      | Some v \<Rightarrow> (None, m(id' \<mapsto> v\<lparr>SslCertificateCreationReported := True\<rparr>)))"

definition store_SetSslCertificateName :: "CertId \<Rightarrow> string \<Rightarrow> store \<Rightarrow> store" where
  "store_SetSslCertificateName id' n m =
     (case m id' of
        None \<Rightarrow>
          m(id' \<mapsto> \<lparr>SslCertificateName = n, SoftDeleted = False, ExcludedFromSLO = False,
                     SslCertificateCreationReported = False\<rparr>)
      | Some v \<Rightarrow> m(id' \<mapsto> v\<lparr>SslCertificateName := n\<rparr>))"

definition store_Delete :: "CertId \<Rightarrow> store \<Rightarrow> store" where
  "store_Delete id' m = m(id' := None)"

text \<open>
  \<open>with_store e\<close> is the reconciler's collaborators \<open>e\<close> with the State Store above in
  place of \<open>e\<close>'s: the world is the store together with \<open>e\<close>'s world, the store's methods
  act on the first, every other method on the second.
\<close>

definition with_store :: "'x syncImpl \<Rightarrow> (store \<times> 'x) syncImpl" where
  "with_store e =
     \<lparr> lister_Get = (\<lambda>id' w. case lister_Get e id' (snd w) of (r, x) \<Rightarrow> (r, (fst w, x))),
       client_Update = (\<lambda>mcrt w. case client_Update e mcrt (snd w) of (r, x) \<Rightarrow> (r, (fst w, x))),
       metrics_Observe = (\<lambda>t w. (fst w, metrics_Observe e t (snd w))),
       random_Name = (\<lambda>w. case random_Name e (snd w) of (r, x) \<Rightarrow> (r, (fst w, x))),
       ssl_Exists = (\<lambda>n mcrt w. case ssl_Exists e n mcrt (snd w) of (r, x) \<Rightarrow> (r, (fst w, x))),
       ssl_Create = (\<lambda>n mcrt w. case ssl_Create e n mcrt (snd w) of (r, x) \<Rightarrow> (r, (fst w, x))),
       ssl_Get = (\<lambda>n mcrt w. case ssl_Get e n mcrt (snd w) of (r, x) \<Rightarrow> (r, (fst w, x))),
       ssl_Delete = (\<lambda>n mcrt w. case ssl_Delete e n mcrt (snd w) of (r, x) \<Rightarrow> (r, (fst w, x))),
       state_Delete = (\<lambda>id' w. (store_Delete id' (fst w), snd w)),
       state_GetSslCertificateName = (\<lambda>id' w. (store_GetSslCertificateName id' (fst w), w)),
       state_IsExcludedFromSLO = (\<lambda>id' w. (store_IsExcludedFromSLO id' (fst w), w)),
       state_IsSoftDeleted = (\<lambda>id' w. (store_IsSoftDeleted id' (fst w), w)),
       state_IsSslCertificateCreationReported =
         (\<lambda>id' w. (store_IsSslCertificateCreationReported id' (fst w), w)),
       state_SetSoftDeleted =
         (\<lambda>id' w. case store_SetSoftDeleted id' (fst w) of (r, m) \<Rightarrow> (r, (m, snd w))),
       state_SetSslCertificateCreationReported =
         (\<lambda>id' w. case store_SetSslCertificateCreationReported id' (fst w) of
                     (r, m) \<Rightarrow> (r, (m, snd w))),
       state_SetSslCertificateName = (\<lambda>id' n w. (store_SetSslCertificateName id' n (fst w), snd w)),
       certificates_Equal = certificates_Equal e,
       certificates_CopyStatus = certificates_CopyStatus e,
       time_Parse = time_Parse e \<rparr>"

text \<open>
  The log of a run over \<open>with_store e\<close> can be replayed on the store alone: \<open>replay\<close>
  applies each logged State Store call to the store and checks that the logged result is
  the one the store gives; calls to other collaborators leave the store as it is.
\<close>

fun store_step :: "event \<Rightarrow> store \<Rightarrow> store option" where
  "store_step (StateDelete i) m = Some (store_Delete i m)"
| "store_step (StateGetSslCertificateName i r) m =
     (if r = store_GetSslCertificateName i m then Some m else None)"
| "store_step (StateIsExcludedFromSLO i r) m =
     (if r = store_IsExcludedFromSLO i m then Some m else None)"
| "store_step (StateIsSoftDeleted i r) m =
     (if r = store_IsSoftDeleted i m then Some m else None)"
| "store_step (StateIsSslCertificateCreationReported i r) m =
     (if r = store_IsSslCertificateCreationReported i m then Some m else None)"
| "store_step (StateSetSoftDeleted i r) m =
     (if r = fst (store_SetSoftDeleted i m) then Some (snd (store_SetSoftDeleted i m)) else None)"
| "store_step (StateSetSslCertificateCreationReported i r) m =
     (if r = fst (store_SetSslCertificateCreationReported i m)
      then Some (snd (store_SetSslCertificateCreationReported i m)) else None)"
| "store_step (StateSetSslCertificateName i n) m = Some (store_SetSslCertificateName i n m)"
| "store_step _ m = Some m"

fun replay :: "event list \<Rightarrow> store \<Rightarrow> store option" where
  "replay [] m = Some m"
| "replay (ev # evs) m = (case store_step ev m of None \<Rightarrow> None | Some m' \<Rightarrow> replay evs m')"

section \<open>A test double for the other collaborators\<close>

text \<open>
  Modelled from the spec: a fake External Resource Manager (certificates kept by name;
  \<^verbatim>\<open>get\<close> and \<^verbatim>\<open>delete\<close> of an absent certificate report NotFound), a declarative store
  (the desired resources by identity), a name generator handing out a given list of
  names, a metrics sink that keeps what it is given, and the Drift Comparator (equality
  of the domain lists; the observed status copied onto the desired resource). The switch
  \<open>delete_down\<close> makes the remote delete fail with a backend error. The fake's own State
  Store is out of service: every read and write fails with a backend error.
\<close>

record externals =
  desired :: "CertId \<Rightarrow> ManagedCertificate option"
  remote :: "string \<Rightarrow> SslCertificate option"
  names :: "string list"
  latencies :: "int list"
  delete_down :: bool

definition fake :: "externals syncImpl" where
  "fake =
     \<lparr> lister_Get = (\<lambda>id' x. (case desired x id' of None \<Rightarrow> Inl NotFound | Some m \<Rightarrow> Inr m, x)),
       client_Update = (\<lambda>mcrt x.
          (None, x\<lparr>desired := (desired x)
                      (\<lparr>Namespace = mcrt_Namespace mcrt, Name = mcrt_Name mcrt\<rparr> \<mapsto> mcrt)\<rparr>)),
       metrics_Observe = (\<lambda>t x. x\<lparr>latencies := latencies x @ [t]\<rparr>),
       random_Name = (\<lambda>x. case names x of
                              [] \<Rightarrow> (Inl (BackendError ''no name''), x)
                            | n # ns \<Rightarrow> (Inr n, x\<lparr>names := ns\<rparr>)),
       ssl_Exists = (\<lambda>n mcrt x. (Inr (remote x n \<noteq> None), x)),
       ssl_Create = (\<lambda>n mcrt x.
          (None, x\<lparr>remote := (remote x)
                      (n \<mapsto> \<lparr>ssl_Name = n, ssl_Domains = mcrt_Domains mcrt,
                              ssl_Status = ''PROVISIONING''\<rparr>)\<rparr>)),
       ssl_Get = (\<lambda>n mcrt x. (case remote x n of None \<Rightarrow> Inl NotFound | Some c \<Rightarrow> Inr c, x)),
       ssl_Delete = (\<lambda>n mcrt x.
          if delete_down x then (Some (BackendError ''delete failed''), x)
          else (case remote x n of
                  None \<Rightarrow> (Some NotFound, x)
                | Some c \<Rightarrow> (None, x\<lparr>remote := (remote x)(n := None)\<rparr>))),
       state_Delete = (\<lambda>id' x. x),
       state_GetSslCertificateName = (\<lambda>id' x. (Inl (BackendError ''state unavailable''), x)),
       state_IsExcludedFromSLO = (\<lambda>id' x. (Inl (BackendError ''state unavailable''), x)),
       state_IsSoftDeleted = (\<lambda>id' x. (Inl (BackendError ''state unavailable''), x)),
       state_IsSslCertificateCreationReported =
         (\<lambda>id' x. (Inl (BackendError ''state unavailable''), x)),
       state_SetSoftDeleted = (\<lambda>id' x. (Some (BackendError ''state unavailable''), x)),
       state_SetSslCertificateCreationReported =
         (\<lambda>id' x. (Some (BackendError ''state unavailable''), x)),
       state_SetSslCertificateName = (\<lambda>id' n x. x),
       certificates_Equal = (\<lambda>mcrt c. mcrt_Domains mcrt = ssl_Domains c),
       certificates_CopyStatus = (\<lambda>c mcrt. Inr (mcrt\<lparr>mcrt_Status := ssl_Status c\<rparr>)),
       time_Parse = (\<lambda>mcrt. Inr (mcrt_CreationTimestamp mcrt)) \<rparr>"

text \<open>The scenario of the spec: identity default/mcrt1 with the domain example.com.\<close>

definition id1 :: CertId where
  "id1 = \<lparr>Namespace = ''default'', Name = ''mcrt1''\<rparr>"

definition mcrt1 :: "string \<Rightarrow> ManagedCertificate" where
  "mcrt1 d = \<lparr>mcrt_Namespace = ''default'', mcrt_Name = ''mcrt1'', mcrt_Domains = [d],
              mcrt_CreationTimestamp = 100, mcrt_Status = []\<rparr>"

definition cert1 :: "string \<Rightarrow> SslCertificate" where
  "cert1 d = \<lparr>ssl_Name = ''mcert-abc123'', ssl_Domains = [d], ssl_Status = ''ACTIVE''\<rparr>"

definition entry1 :: entry where
  "entry1 = \<lparr>SslCertificateName = ''mcert-abc123'', SoftDeleted = False,
             ExcludedFromSLO = False, SslCertificateCreationReported = False\<rparr>"

definition nothing :: externals where
  "nothing = \<lparr>desired = (\<lambda>_. None), remote = (\<lambda>_. None),
              names = [''mcert-abc123'', ''mcert-xyz789''], latencies = [], delete_down = False\<rparr>"

section \<open>The logs a pass can leave\<close>

text \<open>
  One predicate per function of the reconciler: the result and the calls logged by each
  of its paths, in order. The lemmas below show that every run of the function follows
  one of them.
\<close>

inductive name_shape :: "CertId \<Rightarrow> error + string \<Rightarrow> event list \<Rightarrow> bool" for i where
  name_recorded: "name_shape i (Inr n) [StateGetSslCertificateName i (Inr n)]"
| name_random_failed:
    "name_shape i (Inl e) [StateGetSslCertificateName i (Inl g), RandomName (Inl e)]"
| name_generated:
    "name_shape i (Inr n)
       [StateGetSslCertificateName i (Inl g), RandomName (Inr n), StateSetSslCertificateName i n]"

inductive observe_shape :: "CertId \<Rightarrow> error option \<Rightarrow> event list \<Rightarrow> bool" for i where
  observe_excluded_failed: "observe_shape i (Some e) [StateIsExcludedFromSLO i (Inl e)]"
| observe_excluded: "observe_shape i None [StateIsExcludedFromSLO i (Inr True)]"
| observe_reported_failed:
    "observe_shape i (Some e)
       [StateIsExcludedFromSLO i (Inr False), StateIsSslCertificateCreationReported i (Inl e)]"
| observe_reported:
    "observe_shape i None
       [StateIsExcludedFromSLO i (Inr False), StateIsSslCertificateCreationReported i (Inr True)]"
| observe_parse_failed:
    "observe_shape i (Some e)
       [StateIsExcludedFromSLO i (Inr False), StateIsSslCertificateCreationReported i (Inr False)]"
| observe_emitted:
    "observe_shape i r
       [StateIsExcludedFromSLO i (Inr False), StateIsSslCertificateCreationReported i (Inr False),
        MetricsObserve t, StateSetSslCertificateCreationReported i r]"

inductive delete_shape ::
  "ManagedCertificate option \<Rightarrow> CertId \<Rightarrow> string \<Rightarrow> error option \<Rightarrow> event list \<Rightarrow> bool"
  for m i n where
  delete_mark_failed: "delete_shape m i n (Some e) [StateSetSoftDeleted i (Some e)]"
| delete_failed:
    "\<not> IsNotFound (Some e) \<Longrightarrow>
     delete_shape m i n (Some e) [StateSetSoftDeleted i None, SslDelete n m (Some e)]"
| delete_done:
    "d = None \<or> IsNotFound d \<Longrightarrow>
     delete_shape m i n None [StateSetSoftDeleted i None, SslDelete n m d, StateDelete i]"

inductive ensure_shape ::
  "'w syncImpl \<Rightarrow> string \<Rightarrow> CertId \<Rightarrow> ManagedCertificate \<Rightarrow> error + SslCertificate \<Rightarrow>
   event list \<Rightarrow> bool"
  for s n i m where
  ensure_exists_failed: "ensure_shape s n i m (Inl e) [SslExists n m (Inl e)]"
| ensure_create_failed:
    "ensure_shape s n i m (Inl e) [SslExists n m (Inr False), SslCreate n m (Some e)]"
| ensure_observe_failed:
    "observe_shape i (Some e) t \<Longrightarrow>
     ensure_shape s n i m (Inl e) (SslExists n m (Inr False) # SslCreate n m None # t)"
| found_get_failed:
    "ensure_shape s n i m (Inl e) [SslExists n m (Inr True), SslGet n m (Inl e)]"
| found_in_sync:
    "certificates_Equal s m c \<Longrightarrow>
     ensure_shape s n i m (Inr c) [SslExists n m (Inr True), SslGet n m (Inr c)]"
| found_drift_failed:
    "\<not> certificates_Equal s m c \<Longrightarrow> delete_shape (Some m) i n (Some e) t' \<Longrightarrow>
     ensure_shape s n i m (Inl e) (SslExists n m (Inr True) # SslGet n m (Inr c) # t')"
| found_drift_remediated:
    "\<not> certificates_Equal s m c \<Longrightarrow> delete_shape (Some m) i n None t' \<Longrightarrow>
     ensure_shape s n i m (Inl ErrSslCertificateOutOfSyncGotDeleted)
       (SslExists n m (Inr True) # SslGet n m (Inr c) # t')"
| created_get_failed:
    "observe_shape i None t \<Longrightarrow>
     ensure_shape s n i m (Inl e)
       (SslExists n m (Inr False) # SslCreate n m None # t @ [SslGet n m (Inl e)])"
| created_in_sync:
    "observe_shape i None t \<Longrightarrow> certificates_Equal s m c \<Longrightarrow>
     ensure_shape s n i m (Inr c)
       (SslExists n m (Inr False) # SslCreate n m None # t @ [SslGet n m (Inr c)])"
| created_drift_failed:
    "observe_shape i None t \<Longrightarrow> \<not> certificates_Equal s m c \<Longrightarrow>
     delete_shape (Some m) i n (Some e) t' \<Longrightarrow>
     ensure_shape s n i m (Inl e)
       (SslExists n m (Inr False) # SslCreate n m None # t @ SslGet n m (Inr c) # t')"
| created_drift_remediated:
    "observe_shape i None t \<Longrightarrow> \<not> certificates_Equal s m c \<Longrightarrow>
     delete_shape (Some m) i n None t' \<Longrightarrow>
     ensure_shape s n i m (Inl ErrSslCertificateOutOfSyncGotDeleted)
       (SslExists n m (Inr False) # SslCreate n m None # t @ SslGet n m (Inr c) # t')"

inductive sync_shape :: "'w syncImpl \<Rightarrow> CertId \<Rightarrow> error option \<Rightarrow> event list \<Rightarrow> bool"
  for s i where
  sync_lister_failed: "\<not> IsNotFound (Some e) \<Longrightarrow> sync_shape s i (Some e) [ListerGet i (Inl e)]"
| sync_untracked:
    "IsNotFound (Some e) \<Longrightarrow>
     sync_shape s i None
       [ListerGet i (Inl e), StateGetSslCertificateName i (Inl ErrManagedCertificateNotFound)]"
| sync_absent_failed:
    "IsNotFound (Some e) \<Longrightarrow> g \<noteq> ErrManagedCertificateNotFound \<Longrightarrow>
     sync_shape s i (Some g) [ListerGet i (Inl e), StateGetSslCertificateName i (Inl g)]"
| sync_finalize:
    "IsNotFound (Some e) \<Longrightarrow> delete_shape None i n r t \<Longrightarrow>
     sync_shape s i r (ListerGet i (Inl e) # StateGetSslCertificateName i (Inr n) # t)"
| sync_name_failed:
    "name_shape i (Inl e) t \<Longrightarrow> sync_shape s i (Some e) (ListerGet i (Inr m) # t)"
| sync_soft_failed:
    "name_shape i (Inr n) t \<Longrightarrow>
     sync_shape s i (Some e) (ListerGet i (Inr m) # t @ [StateIsSoftDeleted i (Inl e)])"
| sync_soft_deleted:
    "name_shape i (Inr n) t \<Longrightarrow> delete_shape (Some m) i n r t' \<Longrightarrow>
     sync_shape s i r (ListerGet i (Inr m) # t @ StateIsSoftDeleted i (Inr True) # t')"
| sync_ensure_failed:
    "name_shape i (Inr n) t \<Longrightarrow> ensure_shape s n i m (Inl e) t' \<Longrightarrow>
     sync_shape s i (Some e) (ListerGet i (Inr m) # t @ StateIsSoftDeleted i (Inr False) # t')"
| sync_copy_failed:
    "name_shape i (Inr n) t \<Longrightarrow> ensure_shape s n i m (Inr c) t' \<Longrightarrow>
     certificates_CopyStatus s c m = Inl e \<Longrightarrow>
     sync_shape s i (Some e) (ListerGet i (Inr m) # t @ StateIsSoftDeleted i (Inr False) # t')"
| sync_updated:
    "name_shape i (Inr n) t \<Longrightarrow> ensure_shape s n i m (Inr c) t' \<Longrightarrow>
     certificates_CopyStatus s c m = Inr m' \<Longrightarrow>
     sync_shape s i r
       (ListerGet i (Inr m) # t @ StateIsSoftDeleted i (Inr False) # t' @ [ClientUpdate m' r])"

section \<open>Positions in a log\<close>

text \<open>
  \<open>every_pos R p tr\<close> checks \<open>R\<close> at every position of the log \<open>tr\<close>: \<open>R\<close> is given the
  calls before the position (after the prefix \<open>p\<close>), the call at the position, and the
  calls after it.
\<close>

fun every_pos :: "('a list \<Rightarrow> 'a \<Rightarrow> 'a list \<Rightarrow> bool) \<Rightarrow> 'a list \<Rightarrow> 'a list \<Rightarrow> bool" where
  "every_pos R p [] = True"
| "every_pos R p (x # xs) = (R p x xs \<and> every_pos R (p @ [x]) xs)"

text \<open>The log of a run: the calls it made, in order.\<close>

definition log_of :: "'r \<times> 'w st \<Rightarrow> event list" where
  "log_of p = snd (snd p)"

text \<open>
  Worlds for the scenario: \<open>w_fresh\<close> has the desired resource and nothing else
  (pass 1 of the spec's scenario); \<open>w_drifted\<close> has an entry and a remote certificate for
  example.com while the desired resource asks for example.org (pass 2); \<open>w_stuck\<close> is
  \<open>w_drifted\<close> with the remote delete failing; \<open>w_orphan\<close> has an entry but neither a
  desired resource nor a remote certificate. \<open>stale\<close> is the fake with a remote that
  never finds a certificate and always returns one for stale.example.
\<close>

definition w_fresh :: "store \<times> externals" where
  "w_fresh = (Map.empty, nothing\<lparr>desired := [id1 \<mapsto> mcrt1 ''example.com'']\<rparr>)"

definition w_drifted :: "store \<times> externals" where
  "w_drifted =
     ([id1 \<mapsto> entry1],
      nothing\<lparr>desired := [id1 \<mapsto> mcrt1 ''example.org''],
              remote := [''mcert-abc123'' \<mapsto> cert1 ''example.com'']\<rparr>)"

definition w_stuck :: "store \<times> externals" where
  "w_stuck = (fst w_drifted, (snd w_drifted)\<lparr>delete_down := True\<rparr>)"

definition w_orphan :: "store \<times> externals" where
  "w_orphan = ([id1 \<mapsto> entry1], nothing)"





text \<open>
  \<open>emit_ok i m tr\<close> follows the log \<open>tr\<close> from the store \<open>m\<close> and checks, at every
  emission of the creation latency, that the identity's entry exists with neither the
  excluded-from-SLO flag nor the latency-reported flag set, and that the next call sets
  the latency-reported flag and succeeds.
\<close>

fun emit_ok :: "CertId \<Rightarrow> store \<Rightarrow> event list \<Rightarrow> bool" where
  "emit_ok i m [] = True"
| "emit_ok i m (ev # evs) =
     ((case ev of
         MetricsObserve t \<Rightarrow>
           (\<exists>v. m i = Some v \<and> \<not> ExcludedFromSLO v \<and> \<not> SslCertificateCreationReported v) \<and>
           (\<exists>evs'. evs = StateSetSslCertificateCreationReported i None # evs')
       | _ \<Rightarrow> True) \<and>
      (case store_step ev m of None \<Rightarrow> False | Some m' \<Rightarrow> emit_ok i m' evs))"

text \<open>
  Worlds for the deletion scenarios: \<open>w_gone\<close> has an entry, no desired resource, and a
  remote delete that fails; \<open>w_half\<close> is what such a pass leaves once the remote is back:
  the entry marked soft-deleted, and no desired resource.
\<close>

definition w_gone :: "store \<times> externals" where
  "w_gone = ([id1 \<mapsto> entry1], nothing\<lparr>delete_down := True\<rparr>)"

definition w_half :: "store \<times> externals" where
  "w_half = ([id1 \<mapsto> entry1\<lparr>SoftDeleted := True\<rparr>], nothing)"

text \<open>
  \<open>w_marked\<close> has the entry marked soft-deleted while the desired resource and the
  remote certificate are there.
\<close>

definition w_marked :: "store \<times> externals" where
  "w_marked =
     ([id1 \<mapsto> entry1\<lparr>SoftDeleted := True\<rparr>],
      nothing\<lparr>desired := [id1 \<mapsto> mcrt1 ''example.com''],
              remote := [''mcert-abc123'' \<mapsto> cert1 ''example.com'']\<rparr>)"

text \<open>The definitions of the calls, and of the reconciler, for unfolding in proofs.\<close>

lemmas call_defs =
  call_lister_Get_def call_client_Update_def call_metrics_Observe_def call_random_Name_def
  call_ssl_Exists_def call_ssl_Create_def call_ssl_Get_def call_ssl_Delete_def
  call_state_Delete_def call_state_GetSslCertificateName_def call_state_IsExcludedFromSLO_def
  call_state_IsSoftDeleted_def call_state_IsSslCertificateCreationReported_def
  call_state_SetSoftDeleted_def call_state_SetSslCertificateCreationReported_def
  call_state_SetSslCertificateName_def

lemmas sync_defs =
  ensureSslCertificateName_def observeSslCertificateCreationLatencyIfNeeded_def
  deleteSslCertificate_def ensureSslCertificate_def ManagedCertificate_def

section \<open>Every run follows one of the paths\<close>

lemma ensureSslCertificateName_shape:
  "ensureSslCertificateName s i (w, tr0) = (r, (w', tr)) \<Longrightarrow>
   \<exists>new. tr = tr0 @ new \<and> name_shape i r new"
  by (auto simp: ensureSslCertificateName_def call_defs split: prod.splits sum.splits
      intro: name_shape.intros)

lemma observeSslCertificateCreationLatencyIfNeeded_shape:
  "observeSslCertificateCreationLatencyIfNeeded s n i m (w, tr0) = (r, (w', tr)) \<Longrightarrow>
   \<exists>new. tr = tr0 @ new \<and> observe_shape i r new"
  by (auto simp: observeSslCertificateCreationLatencyIfNeeded_def call_defs
      split: prod.splits sum.splits option.splits if_splits intro: observe_shape.intros)

lemma deleteSslCertificate_shape:
  "deleteSslCertificate s m i n (w, tr0) = (r, (w', tr)) \<Longrightarrow>
   \<exists>new. tr = tr0 @ new \<and> delete_shape m i n r new"
  by (auto simp: deleteSslCertificate_def call_defs IgnoreNotFound_def
      split: prod.splits sum.splits option.splits if_splits intro: delete_shape.intros)

lemma ensureSslCertificate_shape:
  "ensureSslCertificate s n i m (w, tr0) = (r, (w', tr)) \<Longrightarrow>
   \<exists>new. tr = tr0 @ new \<and> ensure_shape s n i m r new"
  by (auto simp: ensureSslCertificate_def call_ssl_Exists_def call_ssl_Create_def call_ssl_Get_def
      split: prod.splits sum.splits option.splits if_splits
      dest!: observeSslCertificateCreationLatencyIfNeeded_shape deleteSslCertificate_shape
      intro: ensure_shape.intros)

lemma ManagedCertificate_shape:
  "ManagedCertificate s i (w, tr0) = (r, (w', tr)) \<Longrightarrow>
   \<exists>new. tr = tr0 @ new \<and> sync_shape s i r new"
  by (auto simp: ManagedCertificate_def call_lister_Get_def call_state_GetSslCertificateName_def
        call_state_IsSoftDeleted_def call_client_Update_def
      split: prod.splits sum.splits option.splits if_splits
      dest!: ensureSslCertificateName_shape deleteSslCertificate_shape ensureSslCertificate_shape
      intro: sync_shape.intros)

section \<open>Checking every position\<close>

lemma every_pos_iff:
  "every_pos R p tr \<longleftrightarrow> (\<forall>pre x post. tr = pre @ x # post \<longrightarrow> R (p @ pre) x post)"
proof (induction tr arbitrary: p)
  case Nil
  then show ?case by simp
next
  case (Cons a tr)
  show ?case
  proof
    assume h: "every_pos R p (a # tr)"
    show "\<forall>pre x post. a # tr = pre @ x # post \<longrightarrow> R (p @ pre) x post"
    proof (intro allI impI)
      fix pre x post
      assume eq: "a # tr = pre @ x # post"
      show "R (p @ pre) x post"
      proof (cases pre)
        case Nil
        with eq h show ?thesis by simp
      next
        case (Cons b pre')
        with eq have "tr = pre' @ x # post" and "b = a" by simp_all
        moreover from h have "every_pos R (p @ [a]) tr" by simp
        ultimately have "R ((p @ [a]) @ pre') x post"
          using Cons.IH [of "p @ [a]"] by blast
        with Cons \<open>b = a\<close> show ?thesis by simp
      qed
    qed
  next
    assume h: "\<forall>pre x post. a # tr = pre @ x # post \<longrightarrow> R (p @ pre) x post"
    have "R p a tr" using h [rule_format, of "[]" a tr] by simp
    moreover have "every_pos R (p @ [a]) tr"
    proof -
      have "\<forall>pre x post. tr = pre @ x # post \<longrightarrow> R ((p @ [a]) @ pre) x post"
      proof (intro allI impI)
        fix pre x post
        assume "tr = pre @ x # post"
        then have "a # tr = (a # pre) @ x # post" by simp
        from h [rule_format, OF this] show "R ((p @ [a]) @ pre) x post" by simp
      qed
      then show ?thesis using Cons.IH [of "p @ [a]"] by blast
    qed
    ultimately show "every_pos R p (a # tr)" by simp
  qed
qed

lemma every_posD:
  "every_pos R [] tr \<Longrightarrow> tr = pre @ x # post \<Longrightarrow> R pre x post"
  using every_pos_iff [of R "[]" tr] by simp

section \<open>Nothing to do: no desired resource and no entry\<close>

text \<open>
  Claim C4. When the desired resource is absent (the lister reports NotFound) and the
  State Store has no entry for the identity (the read of the name gives the NotTracked
  error), the pass returns success (nil) and its whole log is the two reads: no call to
  the External Resource Manager and no write to the State Store.
\<close>

theorem C4_absent_untracked_noop:
  assumes "lister_Get s i w = (Inl e, w1)"
    and "IsNotFound (Some e)"
    and "state_GetSslCertificateName s i w1 = (Inl ErrManagedCertificateNotFound, w2)"
  shows "ManagedCertificate s i (w, []) =
           (None, (w2, [ListerGet i (Inl e),
                        StateGetSslCertificateName i (Inl ErrManagedCertificateNotFound)]))"
  using assms
  by (simp add: ManagedCertificate_def call_lister_Get_def call_state_GetSslCertificateName_def)

theorem C4_absent_untracked_noop_witness:
  "lister_Get (with_store fake) id1 (Map.empty, nothing) = (Inl NotFound, (Map.empty, nothing)) \<and>
   IsNotFound (Some NotFound) \<and>
   state_GetSslCertificateName (with_store fake) id1 (Map.empty, nothing) =
     (Inl ErrManagedCertificateNotFound, (Map.empty, nothing)) \<and>
   ManagedCertificate (with_store fake) id1 ((Map.empty, nothing), []) =
     (None, ((Map.empty, nothing),
             [ListerGet id1 (Inl NotFound),
              StateGetSslCertificateName id1 (Inl ErrManagedCertificateNotFound)]))"
proof -
  have a: "lister_Get (with_store fake) id1 (Map.empty, nothing) =
             (Inl NotFound, (Map.empty, nothing))"
    by (simp add: with_store_def fake_def nothing_def)
  have b: "IsNotFound (Some NotFound)" by simp
  have c: "state_GetSslCertificateName (with_store fake) id1 (Map.empty, nothing) =
             (Inl ErrManagedCertificateNotFound, (Map.empty, nothing))"
    by (simp add: with_store_def store_GetSslCertificateName_def)
  from a b c C4_absent_untracked_noop [OF a b c] show ?thesis by simp
qed

section \<open>The name of an entry is stable\<close>



section \<open>Runs of the scenario\<close>

lemmas store_defs =
  store_GetSslCertificateName_def store_IsExcludedFromSLO_def store_IsSoftDeleted_def
  store_IsSslCertificateCreationReported_def store_SetSoftDeleted_def
  store_SetSslCertificateCreationReported_def store_SetSslCertificateName_def store_Delete_def

lemmas fixture_defs =
  w_fresh_def w_drifted_def w_stuck_def w_orphan_def nothing_def id1_def mcrt1_def cert1_def
  entry1_def

lemmas run_defs =
  sync_defs call_defs with_store_def fake_def store_defs IgnoreNotFound_def log_of_def

lemma run_fresh:
  "fst (ManagedCertificate (with_store fake) id1 (w_fresh, [])) = None \<and>
   log_of (ManagedCertificate (with_store fake) id1 (w_fresh, [])) =
     [ListerGet id1 (Inr (mcrt1 ''example.com'')),
      StateGetSslCertificateName id1 (Inl ErrManagedCertificateNotFound),
      RandomName (Inr ''mcert-abc123''),
      StateSetSslCertificateName id1 ''mcert-abc123'',
      StateIsSoftDeleted id1 (Inr False),
      SslExists ''mcert-abc123'' (mcrt1 ''example.com'') (Inr False),
      SslCreate ''mcert-abc123'' (mcrt1 ''example.com'') None,
      StateIsExcludedFromSLO id1 (Inr False),
      StateIsSslCertificateCreationReported id1 (Inr False),
      MetricsObserve 100,
      StateSetSslCertificateCreationReported id1 None,
      SslGet ''mcert-abc123'' (mcrt1 ''example.com'')
        (Inr \<lparr>ssl_Name = ''mcert-abc123'', ssl_Domains = [''example.com''],
              ssl_Status = ''PROVISIONING''\<rparr>),
      ClientUpdate ((mcrt1 ''example.com'')\<lparr>mcrt_Status := ''PROVISIONING''\<rparr>) None]"
  by (simp add: run_defs fixture_defs)

lemma run_drifted:
  "fst (ManagedCertificate (with_store fake) id1 (w_drifted, [])) =
     Some ErrSslCertificateOutOfSyncGotDeleted \<and>
   log_of (ManagedCertificate (with_store fake) id1 (w_drifted, [])) =
     [ListerGet id1 (Inr (mcrt1 ''example.org'')),
      StateGetSslCertificateName id1 (Inr ''mcert-abc123''),
      StateIsSoftDeleted id1 (Inr False),
      SslExists ''mcert-abc123'' (mcrt1 ''example.org'') (Inr True),
      SslGet ''mcert-abc123'' (mcrt1 ''example.org'') (Inr (cert1 ''example.com'')),
      StateSetSoftDeleted id1 None,
      SslDelete ''mcert-abc123'' (Some (mcrt1 ''example.org'')) None,
      StateDelete id1]"
  by (simp add: run_defs fixture_defs)

lemma run_stuck:
  "fst (ManagedCertificate (with_store fake) id1 (w_stuck, [])) =
     Some (BackendError ''delete failed'') \<and>
   log_of (ManagedCertificate (with_store fake) id1 (w_stuck, [])) =
     [ListerGet id1 (Inr (mcrt1 ''example.org'')),
      StateGetSslCertificateName id1 (Inr ''mcert-abc123''),
      StateIsSoftDeleted id1 (Inr False),
      SslExists ''mcert-abc123'' (mcrt1 ''example.org'') (Inr True),
      SslGet ''mcert-abc123'' (mcrt1 ''example.org'') (Inr (cert1 ''example.com'')),
      StateSetSoftDeleted id1 None,
      SslDelete ''mcert-abc123'' (Some (mcrt1 ''example.org''))
        (Some (BackendError ''delete failed''))]"
  by (simp add: run_defs fixture_defs)

lemma run_orphan:
  "fst (ManagedCertificate (with_store fake) id1 (w_orphan, [])) = None \<and>
   log_of (ManagedCertificate (with_store fake) id1 (w_orphan, [])) =
     [ListerGet id1 (Inl NotFound),
      StateGetSslCertificateName id1 (Inr ''mcert-abc123''),
      StateSetSoftDeleted id1 None,
      SslDelete ''mcert-abc123'' None (Some NotFound),
      StateDelete id1]"
  by (simp add: run_defs fixture_defs)

lemma run_unavailable:
  "fst (ManagedCertificate fake id1 (snd w_fresh, [])) =
     Some (BackendError ''state unavailable'') \<and>
   log_of (ManagedCertificate fake id1 (snd w_fresh, [])) =
     [ListerGet id1 (Inr (mcrt1 ''example.com'')),
      StateGetSslCertificateName id1 (Inl (BackendError ''state unavailable'')),
      RandomName (Inr ''mcert-abc123''),
      StateSetSslCertificateName id1 ''mcert-abc123'',
      StateIsSoftDeleted id1 (Inl (BackendError ''state unavailable''))]"
  by (simp add: run_defs fixture_defs)

section \<open>Properties of every path\<close>

lemmas shape_cases =
  sync_shape.cases ensure_shape.cases name_shape.cases delete_shape.cases observe_shape.cases

lemma log_shape:
  "sync_shape s i (fst (ManagedCertificate s i (w, []))) (log_of (ManagedCertificate s i (w, [])))"
proof -
  obtain r w' tr where run: "ManagedCertificate s i (w, []) = (r, (w', tr))"
    by (metis prod.collapse)
  from ManagedCertificate_shape [OF run] show ?thesis
    by (simp add: run log_of_def)
qed

lemma sync_shape_name_before_create:
  "sync_shape s i r tr \<Longrightarrow>
   every_pos (\<lambda>pre x post. \<forall>n m c. x = SslCreate n m c \<longrightarrow>
       StateGetSslCertificateName i (Inr n) \<in> set pre \<or>
       StateSetSslCertificateName i n \<in> set pre) [] tr"
  by (auto elim!: shape_cases)

lemma sync_shape_create_guarded:
  "sync_shape s i r tr \<Longrightarrow>
   every_pos (\<lambda>pre x post. \<forall>n m c. x = SslCreate n m c \<longrightarrow>
       pre \<noteq> [] \<and> last pre = SslExists n m (Inr False) \<and>
       (\<forall>n' m' c'. SslCreate n' m' c' \<notin> set pre \<and> SslCreate n' m' c' \<notin> set post)) [] tr"
  by (auto elim!: shape_cases)

lemma sync_shape_notfound_suppressed:
  "sync_shape s i r tr \<Longrightarrow>
   every_pos (\<lambda>pre x post. \<forall>n m d. x = SslDelete n m d \<and> IsNotFound d \<longrightarrow>
       post = [StateDelete i] \<and>
       r = (if \<exists>n' m' g. SslGet n' m' g \<in> set pre
            then Some ErrSslCertificateOutOfSyncGotDeleted else None)) [] tr"
  by (auto elim!: shape_cases)

lemma sync_shape_remove_after_delete:
  "sync_shape s i r tr \<Longrightarrow>
   every_pos (\<lambda>pre x post. \<forall>i'. x = StateDelete i' \<longrightarrow>
       i' = i \<and> pre \<noteq> [] \<and>
       (\<exists>n m d. last pre = SslDelete n m d \<and> (d = None \<or> IsNotFound d) \<and>
          (StateGetSslCertificateName i (Inr n) \<in> set pre \<or>
           StateSetSslCertificateName i n \<in> set pre))) [] tr"
  by (auto elim!: shape_cases)

lemma sync_shape_mark_before_delete:
  "sync_shape s i r tr \<Longrightarrow>
   every_pos (\<lambda>pre x post. \<forall>n m d. x = SslDelete n m d \<longrightarrow>
       pre \<noteq> [] \<and> last pre = StateSetSoftDeleted i None) [] tr"
  by (auto elim!: shape_cases)

section \<open>Create is guarded by the exists check\<close>

text \<open>
  Claim C6. In every pass, a create call to the External Resource Manager is made only
  when the call logged just before it is the exists check, for the same name and
  resource, with the answer false; and the pass makes at most one create call: no other
  create is logged before or after it.
\<close>

theorem C6_create_only_after_exists_false:
  assumes "log_of (ManagedCertificate s i (w, [])) = pre @ SslCreate n m c # post"
  shows "pre \<noteq> [] \<and> last pre = SslExists n m (Inr False) \<and>
         (\<forall>n' m' c'. SslCreate n' m' c' \<notin> set pre \<and> SslCreate n' m' c' \<notin> set post)"
  using every_posD [OF sync_shape_create_guarded [OF log_shape] assms] by simp

theorem C6_create_only_after_exists_false_witness:
  "log_of (ManagedCertificate (with_store fake) id1 (w_fresh, [])) =
     [ListerGet id1 (Inr (mcrt1 ''example.com'')),
      StateGetSslCertificateName id1 (Inl ErrManagedCertificateNotFound),
      RandomName (Inr ''mcert-abc123''),
      StateSetSslCertificateName id1 ''mcert-abc123'',
      StateIsSoftDeleted id1 (Inr False),
      SslExists ''mcert-abc123'' (mcrt1 ''example.com'') (Inr False)] @
     SslCreate ''mcert-abc123'' (mcrt1 ''example.com'') None #
     [StateIsExcludedFromSLO id1 (Inr False),
      StateIsSslCertificateCreationReported id1 (Inr False),
      MetricsObserve 100,
      StateSetSslCertificateCreationReported id1 None,
      SslGet ''mcert-abc123'' (mcrt1 ''example.com'')
        (Inr \<lparr>ssl_Name = ''mcert-abc123'', ssl_Domains = [''example.com''],
              ssl_Status = ''PROVISIONING''\<rparr>),
      ClientUpdate ((mcrt1 ''example.com'')\<lparr>mcrt_Status := ''PROVISIONING''\<rparr>) None] \<and>
   last [ListerGet id1 (Inr (mcrt1 ''example.com'')),
      StateGetSslCertificateName id1 (Inl ErrManagedCertificateNotFound),
      RandomName (Inr ''mcert-abc123''),
      StateSetSslCertificateName id1 ''mcert-abc123'',
      StateIsSoftDeleted id1 (Inr False),
      SslExists ''mcert-abc123'' (mcrt1 ''example.com'') (Inr False)] =
     SslExists ''mcert-abc123'' (mcrt1 ''example.com'') (Inr False)"
proof -
  have h: "log_of (ManagedCertificate (with_store fake) id1 (w_fresh, [])) =
     [ListerGet id1 (Inr (mcrt1 ''example.com'')),
      StateGetSslCertificateName id1 (Inl ErrManagedCertificateNotFound),
      RandomName (Inr ''mcert-abc123''),
      StateSetSslCertificateName id1 ''mcert-abc123'',
      StateIsSoftDeleted id1 (Inr False),
      SslExists ''mcert-abc123'' (mcrt1 ''example.com'') (Inr False)] @
     SslCreate ''mcert-abc123'' (mcrt1 ''example.com'') None #
     [StateIsExcludedFromSLO id1 (Inr False),
      StateIsSslCertificateCreationReported id1 (Inr False),
      MetricsObserve 100,
      StateSetSslCertificateCreationReported id1 None,
      SslGet ''mcert-abc123'' (mcrt1 ''example.com'')
        (Inr \<lparr>ssl_Name = ''mcert-abc123'', ssl_Domains = [''example.com''],
              ssl_Status = ''PROVISIONING''\<rparr>),
      ClientUpdate ((mcrt1 ''example.com'')\<lparr>mcrt_Status := ''PROVISIONING''\<rparr>) None]"
    using run_fresh by simp
  from C6_create_only_after_exists_false [OF h] h show ?thesis by blast
qed

section \<open>NotFound on delete counts as deleted\<close>

text \<open>
  Claim C8. On every deletion path, when the remote delete answers NotFound, the pass
  goes on as after a successful delete: the one call that follows is the removal of the
  identity's entry from the State Store, and the pass returns the normal outcome of its
  path, which is \<open>ErrSslCertificateOutOfSyncGotDeleted\<close> on the drift path (the path that
  fetched the external resource) and success (nil) on the two others.
\<close>

theorem C8_delete_NotFound_suppressed:
  assumes "log_of (ManagedCertificate s i (w, [])) = pre @ SslDelete n m d # post"
    and "IsNotFound d"
  shows "post = [StateDelete i] \<and>
         fst (ManagedCertificate s i (w, [])) =
           (if \<exists>n' m' g. SslGet n' m' g \<in> set pre
            then Some ErrSslCertificateOutOfSyncGotDeleted else None)"
  using every_posD [OF sync_shape_notfound_suppressed [OF log_shape] assms(1)] assms(2)
  by simp

theorem C8_delete_NotFound_suppressed_witness:
  "log_of (ManagedCertificate (with_store fake) id1 (w_orphan, [])) =
     [ListerGet id1 (Inl NotFound),
      StateGetSslCertificateName id1 (Inr ''mcert-abc123''),
      StateSetSoftDeleted id1 None] @
     SslDelete ''mcert-abc123'' None (Some NotFound) # [StateDelete id1] \<and>
   IsNotFound (Some NotFound) \<and>
   fst (ManagedCertificate (with_store fake) id1 (w_orphan, [])) = None"
proof -
  have h: "log_of (ManagedCertificate (with_store fake) id1 (w_orphan, [])) =
     [ListerGet id1 (Inl NotFound),
      StateGetSslCertificateName id1 (Inr ''mcert-abc123''),
      StateSetSoftDeleted id1 None] @
     SslDelete ''mcert-abc123'' None (Some NotFound) # [StateDelete id1]"
    using run_orphan by simp
  have nf: "IsNotFound (Some NotFound)" by simp
  from C8_delete_NotFound_suppressed [OF h nf] h nf show ?thesis by simp
qed

section \<open>An entry is removed only after the remote delete\<close>

text \<open>
  Claim C9. Whenever a pass removes an entry from the State Store, the entry is the
  identity's own, and the call logged just before the removal is the remote delete of the
  identity's external name (the name the pass read from, or stored in, the State Store)
  with the answer success or NotFound. No path removes the entry after a delete that
  failed or before the delete has answered.
\<close>

theorem C9_entry_removed_only_after_delete:
  assumes "log_of (ManagedCertificate s i (w, [])) = pre @ StateDelete i' # post"
  shows "i' = i \<and> pre \<noteq> [] \<and>
         (\<exists>n m d. last pre = SslDelete n m d \<and> (d = None \<or> IsNotFound d) \<and>
            (StateGetSslCertificateName i (Inr n) \<in> set pre \<or>
             StateSetSslCertificateName i n \<in> set pre))"
  using every_posD [OF sync_shape_remove_after_delete [OF log_shape] assms] by simp

theorem C9_entry_removed_only_after_delete_witness:
  "log_of (ManagedCertificate (with_store fake) id1 (w_drifted, [])) =
     [ListerGet id1 (Inr (mcrt1 ''example.org'')),
      StateGetSslCertificateName id1 (Inr ''mcert-abc123''),
      StateIsSoftDeleted id1 (Inr False),
      SslExists ''mcert-abc123'' (mcrt1 ''example.org'') (Inr True),
      SslGet ''mcert-abc123'' (mcrt1 ''example.org'') (Inr (cert1 ''example.com'')),
      StateSetSoftDeleted id1 None,
      SslDelete ''mcert-abc123'' (Some (mcrt1 ''example.org'')) None] @ StateDelete id1 # [] \<and>
   (\<exists>n m d. last [ListerGet id1 (Inr (mcrt1 ''example.org'')),
      StateGetSslCertificateName id1 (Inr ''mcert-abc123''),
      StateIsSoftDeleted id1 (Inr False),
      SslExists ''mcert-abc123'' (mcrt1 ''example.org'') (Inr True),
      SslGet ''mcert-abc123'' (mcrt1 ''example.org'') (Inr (cert1 ''example.com'')),
      StateSetSoftDeleted id1 None,
      SslDelete ''mcert-abc123'' (Some (mcrt1 ''example.org'')) None] = SslDelete n m d \<and>
      (d = None \<or> IsNotFound d))"
proof -
  have h: "log_of (ManagedCertificate (with_store fake) id1 (w_drifted, [])) =
     [ListerGet id1 (Inr (mcrt1 ''example.org'')),
      StateGetSslCertificateName id1 (Inr ''mcert-abc123''),
      StateIsSoftDeleted id1 (Inr False),
      SslExists ''mcert-abc123'' (mcrt1 ''example.org'') (Inr True),
      SslGet ''mcert-abc123'' (mcrt1 ''example.org'') (Inr (cert1 ''example.com'')),
      StateSetSoftDeleted id1 None,
      SslDelete ''mcert-abc123'' (Some (mcrt1 ''example.org'')) None] @ StateDelete id1 # []"
    using run_drifted by simp
  from C9_entry_removed_only_after_delete [OF h] h show ?thesis by blast
qed

section \<open>Errors of the collaborators\<close>







section \<open>Drift\<close>

lemma sync_shape_drift:
  "sync_shape s i r tr \<Longrightarrow>
   every_pos (\<lambda>pre x post. \<forall>n m c. x = SslGet n m (Inr c) \<and> \<not> certificates_Equal s m c \<longrightarrow>
       (\<exists>e. post = [StateSetSoftDeleted i (Some e)] \<and> r = Some e) \<or>
       (\<exists>e. \<not> IsNotFound (Some e) \<and>
            post = [StateSetSoftDeleted i None, SslDelete n (Some m) (Some e)] \<and> r = Some e) \<or>
       (\<exists>d. (d = None \<or> IsNotFound d) \<and>
            post = [StateSetSoftDeleted i None, SslDelete n (Some m) d, StateDelete i] \<and>
            r = Some ErrSslCertificateOutOfSyncGotDeleted)) [] tr"
  by (auto elim!: shape_cases)

text \<open>
  Claim C3, as the code has it. When the fetched external resource is not equal to the
  desired resource, the pass makes no create call and no status update after the
  comparison: it marks the entry soft-deleted and calls the remote delete. When neither
  fails (NotFound from the delete counting as success) it removes the entry and returns
  \<open>ErrSslCertificateOutOfSyncGotDeleted\<close>; when the mark or the delete fails, the pass
  ends there, returns that error, and the entry is not removed.
\<close>

theorem C3_drift_deletes_and_signals:
  assumes "log_of (ManagedCertificate s i (w, [])) = pre @ SslGet n m (Inr c) # post"
    and "\<not> certificates_Equal s m c"
  shows "(\<exists>e. post = [StateSetSoftDeleted i (Some e)] \<and>
              fst (ManagedCertificate s i (w, [])) = Some e) \<or>
         (\<exists>e. \<not> IsNotFound (Some e) \<and>
              post = [StateSetSoftDeleted i None, SslDelete n (Some m) (Some e)] \<and>
              fst (ManagedCertificate s i (w, [])) = Some e) \<or>
         (\<exists>d. (d = None \<or> IsNotFound d) \<and>
              post = [StateSetSoftDeleted i None, SslDelete n (Some m) d, StateDelete i] \<and>
              fst (ManagedCertificate s i (w, [])) = Some ErrSslCertificateOutOfSyncGotDeleted)"
  using every_posD [OF sync_shape_drift [OF log_shape] assms(1)] assms(2) by blast

theorem C3_drift_deletes_and_signals_witness:
  "log_of (ManagedCertificate (with_store fake) id1 (w_drifted, [])) =
     [ListerGet id1 (Inr (mcrt1 ''example.org'')),
      StateGetSslCertificateName id1 (Inr ''mcert-abc123''),
      StateIsSoftDeleted id1 (Inr False),
      SslExists ''mcert-abc123'' (mcrt1 ''example.org'') (Inr True)] @
     SslGet ''mcert-abc123'' (mcrt1 ''example.org'') (Inr (cert1 ''example.com'')) #
     [StateSetSoftDeleted id1 None,
      SslDelete ''mcert-abc123'' (Some (mcrt1 ''example.org'')) None,
      StateDelete id1] \<and>
   \<not> certificates_Equal (with_store fake) (mcrt1 ''example.org'') (cert1 ''example.com'') \<and>
   fst (ManagedCertificate (with_store fake) id1 (w_drifted, [])) =
     Some ErrSslCertificateOutOfSyncGotDeleted"
proof -
  have h: "log_of (ManagedCertificate (with_store fake) id1 (w_drifted, [])) =
     [ListerGet id1 (Inr (mcrt1 ''example.org'')),
      StateGetSslCertificateName id1 (Inr ''mcert-abc123''),
      StateIsSoftDeleted id1 (Inr False),
      SslExists ''mcert-abc123'' (mcrt1 ''example.org'') (Inr True)] @
     SslGet ''mcert-abc123'' (mcrt1 ''example.org'') (Inr (cert1 ''example.com'')) #
     [StateSetSoftDeleted id1 None,
      SslDelete ''mcert-abc123'' (Some (mcrt1 ''example.org'')) None,
      StateDelete id1]"
    using run_drifted by simp
  have ne: "\<not> certificates_Equal (with_store fake) (mcrt1 ''example.org'') (cert1 ''example.com'')"
    by (simp add: with_store_def fake_def mcrt1_def cert1_def)
  from C3_drift_deletes_and_signals [OF h ne] h ne show ?thesis by auto
qed

text \<open>
  The claim as it is written fails when the remote delete fails: the comparison reports
  a difference, the delete returns a backend error, and the pass returns that error, not
  the drift outcome; the entry is not removed and stays in the State Store, marked
  soft-deleted.
\<close>

theorem C3_counterexample:
  "log_of (ManagedCertificate (with_store fake) id1 (w_stuck, [])) =
     [ListerGet id1 (Inr (mcrt1 ''example.org'')),
      StateGetSslCertificateName id1 (Inr ''mcert-abc123''),
      StateIsSoftDeleted id1 (Inr False),
      SslExists ''mcert-abc123'' (mcrt1 ''example.org'') (Inr True)] @
     SslGet ''mcert-abc123'' (mcrt1 ''example.org'') (Inr (cert1 ''example.com'')) #
     [StateSetSoftDeleted id1 None,
      SslDelete ''mcert-abc123'' (Some (mcrt1 ''example.org''))
        (Some (BackendError ''delete failed''))] \<and>
   \<not> certificates_Equal (with_store fake) (mcrt1 ''example.org'') (cert1 ''example.com'') \<and>
   fst (ManagedCertificate (with_store fake) id1 (w_stuck, [])) =
     Some (BackendError ''delete failed'') \<and>
   fst (fst (snd (ManagedCertificate (with_store fake) id1 (w_stuck, [])))) id1 =
     Some (entry1\<lparr>SoftDeleted := True\<rparr>)"
proof -
  have "\<not> certificates_Equal (with_store fake) (mcrt1 ''example.org'') (cert1 ''example.com'')"
    by (simp add: with_store_def fake_def mcrt1_def cert1_def)
  moreover have "fst (fst (snd (ManagedCertificate (with_store fake) id1 (w_stuck, [])))) id1 =
     Some (entry1\<lparr>SoftDeleted := True\<rparr>)"
    by (simp add: run_defs fixture_defs)
  ultimately show ?thesis using run_stuck by simp
qed

section \<open>Runs over the State Store of the spec\<close>

lemma with_store_simps:
  "lister_Get (with_store e) = (\<lambda>id' w. case lister_Get e id' (snd w) of (r, x) \<Rightarrow> (r, (fst w, x)))"
  "client_Update (with_store e) =
     (\<lambda>mcrt w. case client_Update e mcrt (snd w) of (r, x) \<Rightarrow> (r, (fst w, x)))"
  "metrics_Observe (with_store e) = (\<lambda>t w. (fst w, metrics_Observe e t (snd w)))"
  "random_Name (with_store e) = (\<lambda>w. case random_Name e (snd w) of (r, x) \<Rightarrow> (r, (fst w, x)))"
  "ssl_Exists (with_store e) =
     (\<lambda>n mcrt w. case ssl_Exists e n mcrt (snd w) of (r, x) \<Rightarrow> (r, (fst w, x)))"
  "ssl_Create (with_store e) =
     (\<lambda>n mcrt w. case ssl_Create e n mcrt (snd w) of (r, x) \<Rightarrow> (r, (fst w, x)))"
  "ssl_Get (with_store e) =
     (\<lambda>n mcrt w. case ssl_Get e n mcrt (snd w) of (r, x) \<Rightarrow> (r, (fst w, x)))"
  "ssl_Delete (with_store e) =
     (\<lambda>n mcrt w. case ssl_Delete e n mcrt (snd w) of (r, x) \<Rightarrow> (r, (fst w, x)))"
  "state_Delete (with_store e) = (\<lambda>id' w. (store_Delete id' (fst w), snd w))"
  "state_GetSslCertificateName (with_store e) =
     (\<lambda>id' w. (store_GetSslCertificateName id' (fst w), w))"
  "state_IsExcludedFromSLO (with_store e) = (\<lambda>id' w. (store_IsExcludedFromSLO id' (fst w), w))"
  "state_IsSoftDeleted (with_store e) = (\<lambda>id' w. (store_IsSoftDeleted id' (fst w), w))"
  "state_IsSslCertificateCreationReported (with_store e) =
     (\<lambda>id' w. (store_IsSslCertificateCreationReported id' (fst w), w))"
  "state_SetSoftDeleted (with_store e) =
     (\<lambda>id' w. case store_SetSoftDeleted id' (fst w) of (r, m) \<Rightarrow> (r, (m, snd w)))"
  "state_SetSslCertificateCreationReported (with_store e) =
     (\<lambda>id' w. case store_SetSslCertificateCreationReported id' (fst w) of
                 (r, m) \<Rightarrow> (r, (m, snd w)))"
  "state_SetSslCertificateName (with_store e) =
     (\<lambda>id' n w. (store_SetSslCertificateName id' n (fst w), snd w))"
  "certificates_Equal (with_store e) = certificates_Equal e"
  "certificates_CopyStatus (with_store e) = certificates_CopyStatus e"
  "time_Parse (with_store e) = time_Parse e"
  by (simp_all add: with_store_def)

lemma replay_append:
  "replay (a @ b) m = (case replay a m of None \<Rightarrow> None | Some m' \<Rightarrow> replay b m')"
  by (induction a arbitrary: m) (auto split: option.splits)

lemma ensureSslCertificateName_replay:
  "ensureSslCertificateName (with_store e) i ((m, x), tr0) = (r, ((m', x'), tr)) \<Longrightarrow>
   \<exists>new. tr = tr0 @ new \<and> replay new m = Some m'"
  by (auto simp: ensureSslCertificateName_def call_defs with_store_simps
      split: prod.splits sum.splits)

lemma observeSslCertificateCreationLatencyIfNeeded_replay:
  "observeSslCertificateCreationLatencyIfNeeded (with_store e) n i mc ((m, x), tr0) =
     (r, ((m', x'), tr)) \<Longrightarrow>
   \<exists>new. tr = tr0 @ new \<and> replay new m = Some m'"
  by (auto simp: observeSslCertificateCreationLatencyIfNeeded_def call_defs with_store_simps
      split: prod.splits sum.splits option.splits if_splits)

lemma deleteSslCertificate_replay:
  "deleteSslCertificate (with_store e) mc i n ((m, x), tr0) = (r, ((m', x'), tr)) \<Longrightarrow>
   \<exists>new. tr = tr0 @ new \<and> replay new m = Some m'"
  by (auto simp: deleteSslCertificate_def call_defs with_store_simps
      split: prod.splits sum.splits option.splits if_splits)

lemma ensureSslCertificate_replay:
  "ensureSslCertificate (with_store e) n i mc ((m, x), tr0) = (r, ((m', x'), tr)) \<Longrightarrow>
   \<exists>new. tr = tr0 @ new \<and> replay new m = Some m'"
  by (auto simp: ensureSslCertificate_def call_ssl_Exists_def call_ssl_Create_def call_ssl_Get_def
        with_store_simps replay_append
      split: prod.splits sum.splits option.splits if_splits
      dest!: observeSslCertificateCreationLatencyIfNeeded_replay deleteSslCertificate_replay)

lemma ManagedCertificate_replay:
  "ManagedCertificate (with_store e) i ((m, x), tr0) = (r, ((m', x'), tr)) \<Longrightarrow>
   \<exists>new. tr = tr0 @ new \<and> replay new m = Some m'"
  by (auto simp: ManagedCertificate_def call_lister_Get_def call_state_GetSslCertificateName_def
        call_state_IsSoftDeleted_def call_client_Update_def with_store_simps replay_append
      split: prod.splits sum.splits option.splits if_splits
      dest!: ensureSslCertificateName_replay deleteSslCertificate_replay ensureSslCertificate_replay)

lemma log_replay:
  "replay (log_of (ManagedCertificate (with_store e) i (w, []))) (fst w) =
     Some (fst (fst (snd (ManagedCertificate (with_store e) i (w, [])))))"
proof -
  obtain m x where w: "w = (m, x)" by (cases w)
  obtain r m' x' tr where run: "ManagedCertificate (with_store e) i ((m, x), []) = (r, ((m', x'), tr))"
    by (metis prod.collapse)
  from ManagedCertificate_replay [OF run] show ?thesis
    by (simp add: w run log_of_def)
qed

section \<open>The creation latency is reported once per entry\<close>

lemma emit_ok_replay: "emit_ok i m tr \<Longrightarrow> \<exists>m'. replay tr m = Some m'"
  by (induction tr arbitrary: m) (auto split: option.splits)









section \<open>The name is recorded before the create\<close>

lemma sync_shape_name_stored_at_create:
  "sync_shape s i r tr \<Longrightarrow> replay tr m = Some m' \<Longrightarrow>
   every_pos (\<lambda>pre x post. \<forall>n mc c. x = SslCreate n mc c \<longrightarrow>
       (\<exists>st v. replay pre m = Some st \<and> st i = Some v \<and> SslCertificateName v = n) \<and>
       (StateDelete i \<in> set post \<or> (\<exists>v. m' i = Some v \<and> SslCertificateName v = n))) [] tr"
  by (auto elim!: shape_cases simp: store_defs split: if_splits option.splits)

text \<open>
  Claim C2. In every pass, whatever the collaborators do, a create call for a name is
  logged only after the pass has read that name from the State Store or has stored it
  there. With the State Store of the spec, at the moment of the create call the store
  holds an entry for the identity with exactly that name, and when the pass ends the
  entry still holds it, unless the pass removed the entry (drift): a retried pass reads
  the same name.
\<close>

theorem C2_name_recorded_before_create:
  "(log_of (ManagedCertificate s i (w, [])) = pre @ SslCreate n m c # post \<longrightarrow>
      StateGetSslCertificateName i (Inr n) \<in> set pre \<or>
      StateSetSslCertificateName i n \<in> set pre) \<and>
   (log_of (ManagedCertificate (with_store e) i (w0, [])) = pre0 @ SslCreate n0 m0 c0 # post0 \<longrightarrow>
      (\<exists>st v. replay pre0 (fst w0) = Some st \<and> st i = Some v \<and> SslCertificateName v = n0) \<and>
      (StateDelete i \<in> set post0 \<or>
       (\<exists>v. fst (fst (snd (ManagedCertificate (with_store e) i (w0, [])))) i = Some v \<and>
            SslCertificateName v = n0)))"
proof (intro conjI impI)
  assume h: "log_of (ManagedCertificate s i (w, [])) = pre @ SslCreate n m c # post"
  show "StateGetSslCertificateName i (Inr n) \<in> set pre \<or> StateSetSslCertificateName i n \<in> set pre"
    using every_posD [OF sync_shape_name_before_create [OF log_shape] h] by simp
next
  assume h: "log_of (ManagedCertificate (with_store e) i (w0, [])) = pre0 @ SslCreate n0 m0 c0 # post0"
  note at = every_posD [OF sync_shape_name_stored_at_create [OF log_shape log_replay] h]
  from at show "\<exists>st v. replay pre0 (fst w0) = Some st \<and> st i = Some v \<and> SslCertificateName v = n0"
    by simp
  from at show "StateDelete i \<in> set post0 \<or>
       (\<exists>v. fst (fst (snd (ManagedCertificate (with_store e) i (w0, [])))) i = Some v \<and>
            SslCertificateName v = n0)"
    by simp
qed

theorem C2_name_recorded_before_create_witness:
  "log_of (ManagedCertificate (with_store fake) id1 (w_fresh, [])) =
     [ListerGet id1 (Inr (mcrt1 ''example.com'')),
      StateGetSslCertificateName id1 (Inl ErrManagedCertificateNotFound),
      RandomName (Inr ''mcert-abc123''),
      StateSetSslCertificateName id1 ''mcert-abc123'',
      StateIsSoftDeleted id1 (Inr False),
      SslExists ''mcert-abc123'' (mcrt1 ''example.com'') (Inr False)] @
     SslCreate ''mcert-abc123'' (mcrt1 ''example.com'') None #
     [StateIsExcludedFromSLO id1 (Inr False),
      StateIsSslCertificateCreationReported id1 (Inr False),
      MetricsObserve 100,
      StateSetSslCertificateCreationReported id1 None,
      SslGet ''mcert-abc123'' (mcrt1 ''example.com'')
        (Inr \<lparr>ssl_Name = ''mcert-abc123'', ssl_Domains = [''example.com''],
              ssl_Status = ''PROVISIONING''\<rparr>),
      ClientUpdate ((mcrt1 ''example.com'')\<lparr>mcrt_Status := ''PROVISIONING''\<rparr>) None] \<and>
   StateSetSslCertificateName id1 ''mcert-abc123'' \<in> set
     [ListerGet id1 (Inr (mcrt1 ''example.com'')),
      StateGetSslCertificateName id1 (Inl ErrManagedCertificateNotFound),
      RandomName (Inr ''mcert-abc123''),
      StateSetSslCertificateName id1 ''mcert-abc123'',
      StateIsSoftDeleted id1 (Inr False),
      SslExists ''mcert-abc123'' (mcrt1 ''example.com'') (Inr False)] \<and>
   (\<exists>v. fst (fst (snd (ManagedCertificate (with_store fake) id1 (w_fresh, [])))) id1 = Some v \<and>
        SslCertificateName v = ''mcert-abc123'')"
proof -
  have h: "log_of (ManagedCertificate (with_store fake) id1 (w_fresh, [])) =
     [ListerGet id1 (Inr (mcrt1 ''example.com'')),
      StateGetSslCertificateName id1 (Inl ErrManagedCertificateNotFound),
      RandomName (Inr ''mcert-abc123''),
      StateSetSslCertificateName id1 ''mcert-abc123'',
      StateIsSoftDeleted id1 (Inr False),
      SslExists ''mcert-abc123'' (mcrt1 ''example.com'') (Inr False)] @
     SslCreate ''mcert-abc123'' (mcrt1 ''example.com'') None #
     [StateIsExcludedFromSLO id1 (Inr False),
      StateIsSslCertificateCreationReported id1 (Inr False),
      MetricsObserve 100,
      StateSetSslCertificateCreationReported id1 None,
      SslGet ''mcert-abc123'' (mcrt1 ''example.com'')
        (Inr \<lparr>ssl_Name = ''mcert-abc123'', ssl_Domains = [''example.com''],
              ssl_Status = ''PROVISIONING''\<rparr>),
      ClientUpdate ((mcrt1 ''example.com'')\<lparr>mcrt_Status := ''PROVISIONING''\<rparr>) None]"
    using run_fresh by simp
  note inst = C2_name_recorded_before_create [where s = "with_store fake" and e = fake
      and i = id1 and w = w_fresh and ?w0.0 = w_fresh]
  from inst [THEN conjunct1, rule_format, OF h] inst [THEN conjunct2, rule_format, OF h] h
  show ?thesis by auto
qed

section \<open>The soft-delete mark\<close>

lemma run_gone:
  "fst (ManagedCertificate (with_store fake) id1 (w_gone, [])) =
     Some (BackendError ''delete failed'') \<and>
   log_of (ManagedCertificate (with_store fake) id1 (w_gone, [])) =
     [ListerGet id1 (Inl NotFound),
      StateGetSslCertificateName id1 (Inr ''mcert-abc123''),
      StateSetSoftDeleted id1 None,
      SslDelete ''mcert-abc123'' None (Some (BackendError ''delete failed''))] \<and>
   fst (fst (snd (ManagedCertificate (with_store fake) id1 (w_gone, [])))) id1 =
     Some (entry1\<lparr>SoftDeleted := True\<rparr>)"
  by (simp add: run_defs fixture_defs w_gone_def)

lemma run_marked:
  "log_of (ManagedCertificate (with_store fake) id1 (w_marked, [])) =
     [ListerGet id1 (Inr (mcrt1 ''example.com'')),
      StateGetSslCertificateName id1 (Inr ''mcert-abc123''),
      StateIsSoftDeleted id1 (Inr True),
      StateSetSoftDeleted id1 None,
      SslDelete ''mcert-abc123'' (Some (mcrt1 ''example.com'')) None,
      StateDelete id1]"
  by (simp add: run_defs fixture_defs w_marked_def)

lemma sync_shape_mark_kept:
  "sync_shape s i r tr \<Longrightarrow> replay tr m = Some m' \<Longrightarrow>
   StateSetSoftDeleted i None \<in> set tr \<Longrightarrow> StateDelete i \<notin> set tr \<Longrightarrow>
   \<exists>v. m' i = Some v \<and> SoftDeleted v"
  by (auto elim!: shape_cases simp: store_defs split: if_splits option.splits)

lemma resume_present:
  assumes "fst w i = Some v" and "SoftDeleted v" and "lister_Get e i (snd w) = (Inr mc, x')"
  shows "\<exists>d rest. log_of (ManagedCertificate (with_store e) i (w, [])) =
           [ListerGet i (Inr mc), StateGetSslCertificateName i (Inr (SslCertificateName v)),
            StateIsSoftDeleted i (Inr True), StateSetSoftDeleted i None,
            SslDelete (SslCertificateName v) (Some mc) d] @ rest"
  using assms
  by (auto simp: ManagedCertificate_def ensureSslCertificateName_def deleteSslCertificate_def
      call_defs with_store_simps store_defs log_of_def
      split: prod.splits option.splits)

lemma resume_absent:
  assumes "fst w i = Some v" and "SoftDeleted v" and "lister_Get e i (snd w) = (Inl le, x')"
    and "IsNotFound (Some le)"
  shows "\<exists>d rest. log_of (ManagedCertificate (with_store e) i (w, [])) =
           [ListerGet i (Inl le), StateGetSslCertificateName i (Inr (SslCertificateName v)),
            StateSetSoftDeleted i None, SslDelete (SslCertificateName v) None d] @ rest"
  using assms
  by (auto simp: ManagedCertificate_def deleteSslCertificate_def
      call_defs with_store_simps store_defs log_of_def
      split: prod.splits option.splits)

text \<open>
  Claim C10, as the code has it. On every deletion path the call logged just before the
  remote delete is the write of the soft-deleted flag for the identity, with success.
  With the State Store of the spec: when a pass has written the flag and has not removed
  the entry, the entry is in the store, marked soft-deleted, when the pass ends; and a
  pass that starts with the entry marked soft-deleted resumes the cleanup: through the
  soft-delete branch (the flag is read as set, then the delete is made) when the desired
  resource is present, and through the finalize-deletion branch (the flag is not read)
  when the desired resource is absent.
\<close>

theorem C10_soft_delete_mark_before_delete:
  "(log_of (ManagedCertificate s i (w, [])) = pre @ SslDelete n m d # post \<longrightarrow>
      pre \<noteq> [] \<and> last pre = StateSetSoftDeleted i None) \<and>
   (StateSetSoftDeleted i None \<in> set (log_of (ManagedCertificate (with_store e) i (w0, []))) \<and>
    StateDelete i \<notin> set (log_of (ManagedCertificate (with_store e) i (w0, []))) \<longrightarrow>
      (\<exists>v. fst (fst (snd (ManagedCertificate (with_store e) i (w0, [])))) i = Some v \<and>
           SoftDeleted v)) \<and>
   (fst w1 i = Some v1 \<and> SoftDeleted v1 \<and> lister_Get e i (snd w1) = (Inr mc, x1) \<longrightarrow>
      (\<exists>d' rest. log_of (ManagedCertificate (with_store e) i (w1, [])) =
         [ListerGet i (Inr mc), StateGetSslCertificateName i (Inr (SslCertificateName v1)),
          StateIsSoftDeleted i (Inr True), StateSetSoftDeleted i None,
          SslDelete (SslCertificateName v1) (Some mc) d'] @ rest)) \<and>
   (fst w1 i = Some v1 \<and> SoftDeleted v1 \<and> lister_Get e i (snd w1) = (Inl le, x1) \<and>
    IsNotFound (Some le) \<longrightarrow>
      (\<exists>d' rest. log_of (ManagedCertificate (with_store e) i (w1, [])) =
         [ListerGet i (Inl le), StateGetSslCertificateName i (Inr (SslCertificateName v1)),
          StateSetSoftDeleted i None, SslDelete (SslCertificateName v1) None d'] @ rest))"
proof (intro conjI impI)
  assume h: "log_of (ManagedCertificate s i (w, [])) = pre @ SslDelete n m d # post"
  from every_posD [OF sync_shape_mark_before_delete [OF log_shape] h]
  show "pre \<noteq> []" and "last pre = StateSetSoftDeleted i None" by simp_all
next
  assume "StateSetSoftDeleted i None \<in> set (log_of (ManagedCertificate (with_store e) i (w0, []))) \<and>
    StateDelete i \<notin> set (log_of (ManagedCertificate (with_store e) i (w0, [])))"
  then show "\<exists>v. fst (fst (snd (ManagedCertificate (with_store e) i (w0, [])))) i = Some v \<and>
           SoftDeleted v"
    using sync_shape_mark_kept [OF log_shape log_replay] by blast
next
  assume "fst w1 i = Some v1 \<and> SoftDeleted v1 \<and> lister_Get e i (snd w1) = (Inr mc, x1)"
  then have a: "fst w1 i = Some v1" and b: "SoftDeleted v1"
    and c: "lister_Get e i (snd w1) = (Inr mc, x1)" by simp_all
  show "\<exists>d' rest. log_of (ManagedCertificate (with_store e) i (w1, [])) =
         [ListerGet i (Inr mc), StateGetSslCertificateName i (Inr (SslCertificateName v1)),
          StateIsSoftDeleted i (Inr True), StateSetSoftDeleted i None,
          SslDelete (SslCertificateName v1) (Some mc) d'] @ rest"
    by (rule resume_present [OF a b c])
next
  assume "fst w1 i = Some v1 \<and> SoftDeleted v1 \<and> lister_Get e i (snd w1) = (Inl le, x1) \<and>
    IsNotFound (Some le)"
  then have a: "fst w1 i = Some v1" and b: "SoftDeleted v1"
    and c: "lister_Get e i (snd w1) = (Inl le, x1)" and d: "IsNotFound (Some le)" by simp_all
  show "\<exists>d' rest. log_of (ManagedCertificate (with_store e) i (w1, [])) =
         [ListerGet i (Inl le), StateGetSslCertificateName i (Inr (SslCertificateName v1)),
          StateSetSoftDeleted i None, SslDelete (SslCertificateName v1) None d'] @ rest"
    by (rule resume_absent [OF a b c d])
qed

theorem C10_soft_delete_mark_before_delete_witness:
  "log_of (ManagedCertificate (with_store fake) id1 (w_gone, [])) =
     [ListerGet id1 (Inl NotFound),
      StateGetSslCertificateName id1 (Inr ''mcert-abc123''),
      StateSetSoftDeleted id1 None] @
     SslDelete ''mcert-abc123'' None (Some (BackendError ''delete failed'')) # [] \<and>
   last [ListerGet id1 (Inl NotFound),
      StateGetSslCertificateName id1 (Inr ''mcert-abc123''),
      StateSetSoftDeleted id1 None] = StateSetSoftDeleted id1 None \<and>
   StateSetSoftDeleted id1 None \<in>
     set (log_of (ManagedCertificate (with_store fake) id1 (w_gone, []))) \<and>
   StateDelete id1 \<notin> set (log_of (ManagedCertificate (with_store fake) id1 (w_gone, []))) \<and>
   (\<exists>v. fst (fst (snd (ManagedCertificate (with_store fake) id1 (w_gone, [])))) id1 = Some v \<and>
        SoftDeleted v) \<and>
   fst w_marked id1 = Some (entry1\<lparr>SoftDeleted := True\<rparr>) \<and>
   SoftDeleted (entry1\<lparr>SoftDeleted := True\<rparr>) \<and>
   lister_Get fake id1 (snd w_marked) = (Inr (mcrt1 ''example.com''), snd w_marked) \<and>
   (\<exists>d' rest. log_of (ManagedCertificate (with_store fake) id1 (w_marked, [])) =
      [ListerGet id1 (Inr (mcrt1 ''example.com'')),
       StateGetSslCertificateName id1
         (Inr (SslCertificateName (entry1\<lparr>SoftDeleted := True\<rparr>))),
       StateIsSoftDeleted id1 (Inr True), StateSetSoftDeleted id1 None,
       SslDelete (SslCertificateName (entry1\<lparr>SoftDeleted := True\<rparr>))
         (Some (mcrt1 ''example.com'')) d'] @ rest) \<and>
   fst w_half id1 = Some (entry1\<lparr>SoftDeleted := True\<rparr>) \<and>
   lister_Get fake id1 (snd w_half) = (Inl NotFound, snd w_half) \<and>
   IsNotFound (Some NotFound) \<and>
   (\<exists>d' rest. log_of (ManagedCertificate (with_store fake) id1 (w_half, [])) =
      [ListerGet id1 (Inl NotFound),
       StateGetSslCertificateName id1
         (Inr (SslCertificateName (entry1\<lparr>SoftDeleted := True\<rparr>))),
       StateSetSoftDeleted id1 None,
       SslDelete (SslCertificateName (entry1\<lparr>SoftDeleted := True\<rparr>)) None d'] @ rest)"
proof -
  have h: "log_of (ManagedCertificate (with_store fake) id1 (w_gone, [])) =
     [ListerGet id1 (Inl NotFound),
      StateGetSslCertificateName id1 (Inr ''mcert-abc123''),
      StateSetSoftDeleted id1 None] @
     SslDelete ''mcert-abc123'' None (Some (BackendError ''delete failed'')) # []"
    using run_gone by simp
  have mark: "StateSetSoftDeleted id1 None \<in>
       set (log_of (ManagedCertificate (with_store fake) id1 (w_gone, []))) \<and>
     StateDelete id1 \<notin> set (log_of (ManagedCertificate (with_store fake) id1 (w_gone, [])))"
    using run_gone by simp
  have present: "fst w_marked id1 = Some (entry1\<lparr>SoftDeleted := True\<rparr>) \<and>
      SoftDeleted (entry1\<lparr>SoftDeleted := True\<rparr>) \<and>
      lister_Get fake id1 (snd w_marked) = (Inr (mcrt1 ''example.com''), snd w_marked)"
    by (simp add: w_marked_def fake_def nothing_def)
  have absent: "fst w_half id1 = Some (entry1\<lparr>SoftDeleted := True\<rparr>) \<and>
      SoftDeleted (entry1\<lparr>SoftDeleted := True\<rparr>) \<and>
      lister_Get fake id1 (snd w_half) = (Inl NotFound, snd w_half) \<and>
      IsNotFound (Some NotFound)"
    by (simp add: w_half_def fake_def nothing_def)
  note a = C10_soft_delete_mark_before_delete [where s = "with_store fake" and i = id1
      and w = w_gone, THEN conjunct1, rule_format, OF h]
  note b = C10_soft_delete_mark_before_delete [where e = fake and i = id1 and ?w0.0 = w_gone,
      THEN conjunct2, THEN conjunct1, rule_format, OF mark]
  note c = C10_soft_delete_mark_before_delete [where e = fake and i = id1 and ?w1.0 = w_marked,
      THEN conjunct2, THEN conjunct2, THEN conjunct1, rule_format, OF present]
  note d = C10_soft_delete_mark_before_delete [where e = fake and i = id1 and ?w1.0 = w_half,
      THEN conjunct2, THEN conjunct2, THEN conjunct2, rule_format, OF absent]
  from a b c d h mark present absent show ?thesis by (intro conjI) simp_all
qed

text \<open>
  The claim as it is written fails on the finalize-deletion path. The desired resource
  is absent and the remote delete fails: the first pass writes the flag, fails at the
  delete and leaves the entry marked soft-deleted. The next pass does not read the flag:
  with the desired resource still absent it resumes the cleanup through the
  finalize-deletion branch, so the log of the two passes holds no read of the
  soft-deleted flag.
\<close>

theorem C10_counterexample:
  "fst (ManagedCertificate (with_store fake) id1 (w_gone, [])) =
     Some (BackendError ''delete failed'') \<and>
   fst (fst (snd (ManagedCertificate (with_store fake) id1 (w_gone, [])))) id1 =
     Some (entry1\<lparr>SoftDeleted := True\<rparr>) \<and>
   snd (passes (with_store fake) id1 (Suc (Suc 0)) (w_gone, [])) =
     [ListerGet id1 (Inl NotFound),
      StateGetSslCertificateName id1 (Inr ''mcert-abc123''),
      StateSetSoftDeleted id1 None,
      SslDelete ''mcert-abc123'' None (Some (BackendError ''delete failed'')),
      ListerGet id1 (Inl NotFound),
      StateGetSslCertificateName id1 (Inr ''mcert-abc123''),
      StateSetSoftDeleted id1 None,
      SslDelete ''mcert-abc123'' None (Some (BackendError ''delete failed''))]"
proof -
  have "snd (passes (with_store fake) id1 (Suc (Suc 0)) (w_gone, [])) =
     [ListerGet id1 (Inl NotFound),
      StateGetSslCertificateName id1 (Inr ''mcert-abc123''),
      StateSetSoftDeleted id1 None,
      SslDelete ''mcert-abc123'' None (Some (BackendError ''delete failed'')),
      ListerGet id1 (Inl NotFound),
      StateGetSslCertificateName id1 (Inr ''mcert-abc123''),
      StateSetSoftDeleted id1 None,
      SslDelete ''mcert-abc123'' None (Some (BackendError ''delete failed''))]"
    by (simp add: run_defs fixture_defs w_gone_def)
  with run_gone show ?thesis by simp
qed

end
